theory Spec2Isabelle
  imports Complex_Main "HOL-Library.Word"
begin

section \<open>JavaScript strings\<close>

text \<open>
  A JavaScript string is a sequence of 16-bit code units; \<open>length\<close> counts code units, and
  \<open>trim\<close>, \<open>toLowerCase\<close> and a regular expression without the \<open>u\<close> flag work on them.
  \<open>ascii\<close> writes a string literal of ASCII characters as its code units.
\<close>

type_synonym jsstring = "16 word list"

definition ascii :: "string \<Rightarrow> jsstring" where
  "ascii s = map (\<lambda>c. of_nat (of_char c)) s"

text \<open>
  The code units that ECMAScript's WhiteSpace and LineTerminator productions list: the ones
  \<open>String.prototype.trim\<close> strips and the ones the class escape \<open>\s\<close> matches.
\<close>

definition isWhiteSpace :: "16 word \<Rightarrow> bool" where
  "isWhiteSpace c \<longleftrightarrow>
     c = 0x0009 \<or> c = 0x000A \<or> c = 0x000B \<or> c = 0x000C \<or> c = 0x000D \<or> c = 0x0020 \<or>
     c = 0x00A0 \<or> c = 0x1680 \<or> (0x2000 \<le> c \<and> c \<le> 0x200A) \<or> c = 0x2028 \<or>
     c = 0x2029 \<or> c = 0x202F \<or> c = 0x205F \<or> c = 0x3000 \<or> c = 0xFEFF"

definition trim :: "jsstring \<Rightarrow> jsstring" where
  "trim s = rev (dropWhile isWhiteSpace (rev (dropWhile isWhiteSpace s)))"

text \<open>
  \<open>String.prototype.toLowerCase\<close> belongs to the host, with Unicode's case tables behind
  it; the functions that call it take it as a parameter. What ECMAScript fixes for it is
  written out here for the strings made of Basic Latin, Latin-1 Supplement and white space
  code units only: \<open>A\<close> to \<open>Z\<close> and U+00C0 to U+00DE (without the multiplication sign
  U+00D7) move up by 0x20, every other code unit of that kind stays. For a string with any
  other code unit the table has no answer (\<open>None\<close>).
\<close>

definition is_upper :: "16 word \<Rightarrow> bool" where
  "is_upper c \<longleftrightarrow> (0x0041 \<le> c \<and> c \<le> 0x005A) \<or> (0x00C0 \<le> c \<and> c \<le> 0x00DE \<and> c \<noteq> 0x00D7)"

definition in_table :: "16 word \<Rightarrow> bool" where
  "in_table c \<longleftrightarrow> c \<le> 0x00FF \<or> isWhiteSpace c"

definition toLowerCase_unit :: "16 word \<Rightarrow> 16 word option" where
  "toLowerCase_unit c =
     (if \<not> in_table c then None else if is_upper c then Some (c + 0x0020) else Some c)"

definition toLowerCase_table :: "jsstring \<Rightarrow> jsstring option" where
  "toLowerCase_table s = those (map toLowerCase_unit s)"

text \<open>A function agrees with the table when it gives the table's answer wherever there is one.\<close>

definition agrees_with_table :: "(jsstring \<Rightarrow> jsstring) \<Rightarrow> bool" where
  "agrees_with_table lc \<longleftrightarrow> (\<forall>s t. toLowerCase_table s = Some t \<longrightarrow> lc s = t)"

text \<open>
  A string is lower case when it is made of code units of the table none of which is an
  upper-case letter. Two code units are case variants of each other when they are equal
  or one is the upper-case letter of the other; two strings differ in letter case only
  when they are case variants code unit by code unit.
\<close>

definition is_lowercase :: "jsstring \<Rightarrow> bool" where
  "is_lowercase k = list_all (\<lambda>c. in_table c \<and> \<not> is_upper c) k"

definition case_variant :: "16 word \<Rightarrow> 16 word \<Rightarrow> bool" where
  "case_variant c d \<longleftrightarrow> c = d \<or> (is_upper c \<and> d = c + 0x0020) \<or> (is_upper d \<and> c = d + 0x0020)"

definition same_up_to_case :: "jsstring \<Rightarrow> jsstring \<Rightarrow> bool" where
  "same_up_to_case a b = list_all2 case_variant a b"

section \<open>The regular expression of the validator\<close>

text \<open>
  \<open>/^[a-zA-Z...\s\-]+$/\<close> has no flags: \<open>^\<close> and \<open>$\<close> are the two ends of the input and the
  class is tried on one code unit at a time. A class is a list of ranges, single code units
  and the escape \<open>\s\<close>.
\<close>

datatype class_item = Range "16 word" "16 word" | Single "16 word" | WhiteSpaceEscape

fun item_matches :: "class_item \<Rightarrow> 16 word \<Rightarrow> bool" where
  "item_matches (Range lo hi) c = (lo \<le> c \<and> c \<le> hi)"
| "item_matches (Single d) c = (c = d)"
| "item_matches WhiteSpaceEscape c = isWhiteSpace c"

definition class_matches :: "class_item list \<Rightarrow> 16 word \<Rightarrow> bool" where
  "class_matches cls c = list_ex (\<lambda>i. item_matches i c) cls"

text \<open>
  \<open>[cls]+$\<close> from the current position: one code unit of the class, then either the end of
  the input or the same again.
\<close>

fun plus_to_end :: "class_item list \<Rightarrow> jsstring \<Rightarrow> bool" where
  "plus_to_end cls [] = False"
| "plus_to_end cls [c] = class_matches cls c"
| "plus_to_end cls (c # d # s) = (class_matches cls c \<and> plus_to_end cls (d # s))"

text \<open>
  The class of line 145: \<open>a-z\<close>, \<open>A-Z\<close>, the seven letters U+00E4, U+00F6, U+00FC, U+00C4,
  U+00D6, U+00DC, U+00DF (each one precomposed code unit in the source file), \<open>\s\<close> and the
  hyphen.
\<close>

definition city_class :: "class_item list" where
  "city_class =
     [Range 0x0061 0x007A, Range 0x0041 0x005A,
      Single 0x00E4, Single 0x00F6, Single 0x00FC, Single 0x00C4, Single 0x00D6, Single 0x00DC,
      Single 0x00DF, WhiteSpaceEscape, Single 0x002D]"

definition city_regex_test :: "jsstring \<Rightarrow> bool" where
  "city_regex_test s = plus_to_end city_class s"

section \<open>Errors\<close>

text \<open>
  Every \<open>throw\<close> of \<open>main.js\<close> and every rejection of the host functions it awaits is a
  value. The first eight are the \<open>Error\<close> objects the program creates itself (lines 133, 137,
  141, 146, 166, 172, 192, 198; the two transport errors carry \<open>response.status\<close>, the
  not-found error the city); the last four come from the host: a property read on
  \<open>undefined\<close> or \<open>null\<close>, \<open>encodeURIComponent\<close> on a lone surrogate, \<open>fetch\<close> rejecting and
  \<open>response.json()\<close> rejecting.
\<close>

datatype error =
    EmptyInput | TooShort | TooLong | InvalidCharacters
  | GeocodingTransportError nat | CityNotFound jsstring
  | WeatherTransportError nat | DataUnavailable
  | TypeError | URIError | FetchRejected | JsonSyntaxError

section \<open>Validation.validateCity\<close>

definition validateCity :: "jsstring \<Rightarrow> error + jsstring" where
  "validateCity city =
     (let trimmed = trim city in
      if trimmed = [] then Inl EmptyInput
      else if length trimmed < 2 then Inl TooShort
      else if length trimmed > 50 then Inl TooLong
      else if \<not> city_regex_test trimmed then Inl InvalidCharacters
      else Inr trimmed)"

text \<open>
  The character set in the words of the specification: letters (\<open>a\<close> to \<open>z\<close>, \<open>A\<close> to \<open>Z\<close>),
  the specified diacritics (the seven letters with umlaut and the sharp s that the source
  lists), white space, the hyphen.
\<close>

definition is_letter :: "16 word \<Rightarrow> bool" where
  "is_letter c \<longleftrightarrow> (0x0061 \<le> c \<and> c \<le> 0x007A) \<or> (0x0041 \<le> c \<and> c \<le> 0x005A)"

definition is_specified_diacritic :: "16 word \<Rightarrow> bool" where
  "is_specified_diacritic c \<longleftrightarrow> c \<in> {0x00E4, 0x00F6, 0x00FC, 0x00C4, 0x00D6, 0x00DC, 0x00DF}"

definition allowed_char :: "16 word \<Rightarrow> bool" where
  "allowed_char c \<longleftrightarrow> is_letter c \<or> is_specified_diacritic c \<or> isWhiteSpace c \<or> c = 0x002D"

section \<open>Values parsed from JSON\<close>

text \<open>
  What \<open>response.json()\<close> hands to the program: \<open>null\<close>, booleans, numbers, strings, arrays
  and objects; \<open>JUndefined\<close> is what reading a missing property gives. A number is the real
  it denotes: the program compares it with zero and passes it on, it computes nothing from
  it. An object is the list of its own properties.
\<close>

datatype jsval =
    JUndefined | JNull | JBool bool | JNum real | JStr jsstring
  | JArr "jsval list" | JObj "(jsstring \<times> jsval) list"

text \<open>JavaScript's ToBoolean: what \<open>!v\<close> and \<open>v || d\<close> test.\<close>

fun truthy :: "jsval \<Rightarrow> bool" where
  "truthy JUndefined = False"
| "truthy JNull = False"
| "truthy (JBool b) = b"
| "truthy (JNum x) = (x \<noteq> 0)"
| "truthy (JStr s) = (s \<noteq> [])"
| "truthy (JArr xs) = True"
| "truthy (JObj kvs) = True"

text \<open>
  The property read \<open>v.p\<close> for the names the program reads (\<open>results\<close>, \<open>length\<close>,
  \<open>latitude\<close>, \<open>longitude\<close>, \<open>name\<close>, \<open>country\<close>, \<open>current\<close>, \<open>temperature_2m\<close>): on
  \<open>undefined\<close> and \<open>null\<close> it throws a TypeError; an object gives its own property or
  \<open>undefined\<close>; arrays and strings have \<open>length\<close>; none of the names is inherited from a
  prototype otherwise.
\<close>

fun get_prop :: "jsval \<Rightarrow> jsstring \<Rightarrow> error + jsval" where
  "get_prop JUndefined p = Inl TypeError"
| "get_prop JNull p = Inl TypeError"
| "get_prop (JObj kvs) p = Inr (case map_of kvs p of Some v \<Rightarrow> v | None \<Rightarrow> JUndefined)"
| "get_prop (JArr xs) p = Inr (if p = ascii ''length'' then JNum (real (length xs)) else JUndefined)"
| "get_prop (JStr s) p = Inr (if p = ascii ''length'' then JNum (real (length s)) else JUndefined)"
| "get_prop (JBool b) p = Inr JUndefined"
| "get_prop (JNum x) p = Inr JUndefined"

text \<open>The element read \<open>v[0]\<close>.\<close>

fun get_index0 :: "jsval \<Rightarrow> error + jsval" where
  "get_index0 JUndefined = Inl TypeError"
| "get_index0 JNull = Inl TypeError"
| "get_index0 (JArr xs) = Inr (case xs of [] \<Rightarrow> JUndefined | x # _ \<Rightarrow> x)"
| "get_index0 (JStr s) = Inr (case s of [] \<Rightarrow> JUndefined | c # _ \<Rightarrow> JStr [c])"
| "get_index0 (JObj kvs) = Inr (case map_of kvs (ascii ''0'') of Some v \<Rightarrow> v | None \<Rightarrow> JUndefined)"
| "get_index0 (JBool b) = Inr JUndefined"
| "get_index0 (JNum x) = Inr JUndefined"

text \<open>
  Interpolating a value into a template literal converts it to a string. That throws a
  TypeError for an object that has an own property \<open>toString\<close> (parsed from JSON it is not
  callable, and \<open>Object.prototype.valueOf\<close> returns no primitive), and for an array with such
  an element (\<open>null\<close> and \<open>undefined\<close> elements are joined as the empty string).
\<close>

fun toString_throws :: "jsval \<Rightarrow> bool" where
  "toString_throws (JObj kvs) = (map_of kvs (ascii ''toString'') \<noteq> None)"
| "toString_throws (JArr xs) = list_ex toString_throws xs"
| "toString_throws v = False"

text \<open>
  \<open>encodeURIComponent\<close> throws a URIError when its argument has a surrogate code unit that
  is not part of a pair.
\<close>

fun lone_surrogate :: "jsstring \<Rightarrow> bool" where
  "lone_surrogate [] = False"
| "lone_surrogate [c] = (0xD800 \<le> c \<and> c \<le> 0xDFFF)"
| "lone_surrogate (c # d # s) =
     (if 0xD800 \<le> c \<and> c \<le> 0xDBFF then (if 0xDC00 \<le> d \<and> d \<le> 0xDFFF then lone_surrogate s else True)
      else if 0xDC00 \<le> c \<and> c \<le> 0xDFFF then True
      else lone_surrogate (d # s))"

section \<open>The network and the clock\<close>

text \<open>
  What awaiting \<open>fetch\<close> and then \<open>response.json()\<close> can give: the request is rejected, or
  there is a response with its \<open>ok\<close> flag, its \<open>status\<close> and its body, which either parses
  as JSON or does not. A request is written by the parameters that the program puts into
  the URL, not by the URL text.
\<close>

datatype fetch_result = Rejected | Response bool nat "jsval option"

text \<open>
  What one call of \<open>getTemperature\<close> does to the outside, in order: the calls of
  \<open>Cache.get\<close> and \<open>Cache.set\<close> (lines 209 and 234) with their key, and the two calls of
  \<open>fetch\<close> (lines 161 and 187) with the city, or the latitude and longitude, that they send.
\<close>

datatype event = CacheGet jsstring | CacheSet jsstring | GeoFetch jsstring | WeatherFetch jsval jsval

text \<open>
  The surroundings of one call of \<open>getTemperature\<close>: what \<open>Date.now()\<close> reads in
  \<open>Cache.get\<close> and in \<open>Cache.set\<close>, and what the two endpoints answer to each request.
\<close>

record env =
  now_get :: int
  geocoding :: "jsstring \<Rightarrow> fetch_result"
  weather :: "jsval \<Rightarrow> jsval \<Rightarrow> fetch_result"
  now_set :: int

section \<open>Cache\<close>

definition CACHE_DURATION :: int where
  "CACHE_DURATION = 5 * 60 * 1000"

text \<open>The object that \<open>Cache.set\<close> stores; its field \<open>value\<close> is \<open>item_value\<close> here.\<close>

record 'v item =
  item_value :: 'v
  timestamp :: int

type_synonym 'v cache_data = "jsstring \<rightharpoonup> 'v item"

definition Cache_set :: "'v cache_data \<Rightarrow> int \<Rightarrow> jsstring \<Rightarrow> 'v \<Rightarrow> 'v cache_data" where
  "Cache_set data now key v = data(key \<mapsto> \<lparr>item_value = v, timestamp = now\<rparr>)"

text \<open>
  \<open>Cache.get\<close> returns \<open>null\<close> (here \<open>None\<close>) or the stored value, and the map as it leaves
  it. A stored item is an object, so \<open>!item\<close> holds only when the key has no entry.
\<close>

definition Cache_get :: "'v cache_data \<Rightarrow> int \<Rightarrow> jsstring \<Rightarrow> 'v option \<times> 'v cache_data" where
  "Cache_get data now key =
     (case data key of
        None \<Rightarrow> (None, data)
      | Some item \<Rightarrow>
          if now - timestamp item > CACHE_DURATION then (None, data(key := None))
          else (Some (item_value item), data))"

definition Cache_clear :: "'v cache_data \<Rightarrow> 'v cache_data" where
  "Cache_clear data = Map.empty"

section \<open>API\<close>

record location =
  latitude :: jsval
  longitude :: jsval
  name :: jsval
  loc_country :: jsval

record reading =
  city :: jsval
  country :: jsval
  temperature :: jsval

text \<open>Lines 171 to 180: from the parsed body of the geocoding response to the location.\<close>

definition location_of :: "jsstring \<Rightarrow> jsval \<Rightarrow> error + location" where
  "location_of cty data =
     (case get_prop data (ascii ''results'') of
        Inl e \<Rightarrow> Inl e
      | Inr results \<Rightarrow>
          if \<not> truthy results then Inl (CityNotFound cty)
          else (case get_prop results (ascii ''length'') of
            Inl e \<Rightarrow> Inl e
          | Inr len \<Rightarrow>
              if len = JNum 0 then Inl (CityNotFound cty)
              else (case get_index0 results of
                Inl e \<Rightarrow> Inl e
              | Inr first \<Rightarrow>
                  (case get_prop first (ascii ''latitude'') of
                    Inl e \<Rightarrow> Inl e
                  | Inr lat \<Rightarrow>
                  (case get_prop first (ascii ''longitude'') of
                    Inl e \<Rightarrow> Inl e
                  | Inr lon \<Rightarrow>
                  (case get_prop first (ascii ''name'') of
                    Inl e \<Rightarrow> Inl e
                  | Inr nm \<Rightarrow>
                  (case get_prop first (ascii ''country'') of
                    Inl e \<Rightarrow> Inl e
                  | Inr c \<Rightarrow>
                      Inr \<lparr>latitude = lat, longitude = lon, name = nm,
                           loc_country = (if truthy c then c else JStr [])\<rparr>)))))))"

text \<open>
  \<open>getCoordinates\<close> returns its result and the requests it has sent. The URL is built
  before \<open>fetch\<close> is called, so a URIError leaves no request.
\<close>

definition getCoordinates :: "(jsstring \<Rightarrow> fetch_result) \<Rightarrow> jsstring \<Rightarrow> (error + location) \<times> event list" where
  "getCoordinates geo cty =
     (if lone_surrogate cty then (Inl URIError, [])
      else
        (case geo cty of
           Rejected \<Rightarrow> Inl FetchRejected
         | Response ok status body \<Rightarrow>
             if \<not> ok then Inl (GeocodingTransportError status)
             else (case body of
               None \<Rightarrow> Inl JsonSyntaxError
             | Some data \<Rightarrow> location_of cty data),
         [GeoFetch cty]))"

text \<open>Lines 197 to 201: from the parsed body of the forecast response to the temperature.\<close>

definition temperature_of :: "jsval \<Rightarrow> error + jsval" where
  "temperature_of data =
     (case get_prop data (ascii ''current'') of
        Inl e \<Rightarrow> Inl e
      | Inr cur \<Rightarrow>
          if \<not> truthy cur then Inl DataUnavailable
          else (case get_prop cur (ascii ''temperature_2m'') of
            Inl e \<Rightarrow> Inl e
          | Inr t \<Rightarrow> if t = JUndefined then Inl DataUnavailable else Inr t))"

definition getWeather :: "(jsval \<Rightarrow> jsval \<Rightarrow> fetch_result) \<Rightarrow> jsval \<Rightarrow> jsval \<Rightarrow> (error + jsval) \<times> event list" where
  "getWeather wx lat lon =
     (if toString_throws lat \<or> toString_throws lon then (Inl TypeError, [])
      else
        (case wx lat lon of
           Rejected \<Rightarrow> Inl FetchRejected
         | Response ok status body \<Rightarrow>
             if \<not> ok then Inl (WeatherTransportError status)
             else (case body of
               None \<Rightarrow> Inl JsonSyntaxError
             | Some data \<Rightarrow> temperature_of data),
         [WeatherFetch lat lon]))"

text \<open>
  \<open>getTemperature\<close> takes the host's \<open>toLowerCase\<close>, the cache map and the surroundings of
  this call and returns its
  result, the cache map as it leaves it, and what it did in order. A cached reading is an
  object, so \<open>if (cached)\<close> holds exactly when \<open>Cache.get\<close> returned one. The \<open>catch\<close> block
  logs and rethrows.
\<close>

definition getTemperature ::
  "(jsstring \<Rightarrow> jsstring) \<Rightarrow> reading cache_data \<Rightarrow> env \<Rightarrow> jsstring \<Rightarrow>
     (error + reading) \<times> reading cache_data \<times> event list" where
  "getTemperature toLowerCase data e cty =
     (let key = toLowerCase cty;
          (cached, data1) = Cache_get data (now_get e) key
      in case cached of
           Some r \<Rightarrow> (Inr r, data1, [CacheGet key])
         | None \<Rightarrow>
             (case getCoordinates (geocoding e) cty of
                (Inl err, tr1) \<Rightarrow> (Inl err, data1, CacheGet key # tr1)
              | (Inr loc, tr1) \<Rightarrow>
                  (case getWeather (weather e) (latitude loc) (longitude loc) of
                     (Inl err, tr2) \<Rightarrow> (Inl err, data1, CacheGet key # tr1 @ tr2)
                   | (Inr t, tr2) \<Rightarrow>
                       (let result = \<lparr>city = name loc, country = loc_country loc, temperature = t\<rparr>
                        in (Inr result, Cache_set data1 (now_set e) key result,
                            CacheGet key # tr1 @ tr2 @ [CacheSet key])))))"

section \<open>Runs and example data\<close>

text \<open>The two calls of \<open>fetch\<close> among the events.\<close>

fun is_fetch :: "event \<Rightarrow> bool" where
  "is_fetch (GeoFetch c) = True"
| "is_fetch (WeatherFetch lat lon) = True"
| "is_fetch ev = False"

text \<open>
  \<open>handleRequest\<close> (lines 253 to 272) is the one caller of \<open>getTemperature\<close>: it validates
  what the user typed and passes the validated city on; every error ends in the \<open>catch\<close>
  block, which shows its message. The calls into the page are left out.
\<close>

definition handleRequest ::
  "(jsstring \<Rightarrow> jsstring) \<Rightarrow> reading cache_data \<Rightarrow> env \<Rightarrow> jsstring \<Rightarrow>
     (error + reading) \<times> reading cache_data \<times> event list" where
  "handleRequest toLowerCase data e raw =
     (case validateCity raw of
        Inl err \<Rightarrow> (Inl err, data, [])
      | Inr cty \<Rightarrow> getTemperature toLowerCase data e cty)"

text \<open>
  \<open>Cache.data\<close> starts as an empty map (line 34) and \<open>getTemperature\<close> is the only caller
  of \<open>Cache.get\<close> and \<open>Cache.set\<close>: the map after a sequence of requests, one after the
  other, each with its surroundings and with what the user typed.
\<close>

fun requests ::
  "(jsstring \<Rightarrow> jsstring) \<Rightarrow> reading cache_data \<Rightarrow> (env \<times> jsstring) list \<Rightarrow> reading cache_data" where
  "requests lc data [] = data"
| "requests lc data ((e, raw) # rest) = requests lc (fst (snd (handleRequest lc data e raw))) rest"

text \<open>
  A host function for the examples: the table's answer. The examples apply it to strings
  of the table only; about other strings nothing is said.
\<close>

definition example_toLowerCase :: "jsstring \<Rightarrow> jsstring" where
  "example_toLowerCase s = the (toLowerCase_table s)"

text \<open>The two response bodies of the specification's example.\<close>

definition berlin_geo :: jsval where
  "berlin_geo =
     JObj [(ascii ''results'',
            JArr [JObj [(ascii ''latitude'', JNum 52.52), (ascii ''longitude'', JNum 13.405),
                        (ascii ''name'', JStr (ascii ''Berlin'')),
                        (ascii ''country'', JStr (ascii ''Germany''))]])]"

definition berlin_weather :: jsval where
  "berlin_weather = JObj [(ascii ''current'', JObj [(ascii ''temperature_2m'', JNum 9.3)])]"

definition berlin_reading :: reading where
  "berlin_reading =
     \<lparr>city = JStr (ascii ''Berlin''), country = JStr (ascii ''Germany''), temperature = JNum 9.3\<rparr>"

text \<open>Both endpoints answer with status 200 and these bodies; the clock reads 1000, then 1500.\<close>

definition berlin_env :: env where
  "berlin_env =
     \<lparr>now_get = 1000,
      geocoding = (\<lambda>c. Response True 200 (Some berlin_geo)),
      weather = (\<lambda>lat lon. Response True 200 (Some berlin_weather)),
      now_set = 1500\<rparr>"

text \<open>
  A second pair of bodies: the first result has no \<open>country\<close>, and the temperature is 0.
\<close>

definition paris_geo :: jsval where
  "paris_geo =
     JObj [(ascii ''results'',
            JArr [JObj [(ascii ''latitude'', JNum 48.85), (ascii ''longitude'', JNum 2.35),
                        (ascii ''name'', JStr (ascii ''Paris''))]])]"

definition paris_weather :: jsval where
  "paris_weather = JObj [(ascii ''current'', JObj [(ascii ''temperature_2m'', JNum 0)])]"

definition paris_reading :: reading where
  "paris_reading = \<lparr>city = JStr (ascii ''Paris''), country = JStr [], temperature = JNum 0\<rparr>"

definition paris_env :: env where
  "paris_env =
     \<lparr>now_get = 5000,
      geocoding = (\<lambda>c. Response True 200 (Some paris_geo)),
      weather = (\<lambda>lat lon. Response True 200 (Some paris_weather)),
      now_set = 5600\<rparr>"

text \<open>The network is down; the clock reads \<open>t\<close>.\<close>

definition offline_env :: "int \<Rightarrow> env" where
  "offline_env t =
     \<lparr>now_get = t, geocoding = (\<lambda>c. Rejected), weather = (\<lambda>lat lon. Rejected), now_set = t\<rparr>"

text \<open>The geocoding endpoint answers with status 200 and \<open>{}\<close>; the clock reads \<open>t\<close>.\<close>

definition not_found_env :: "int \<Rightarrow> env" where
  "not_found_env t =
     \<lparr>now_get = t,
      geocoding = (\<lambda>c. Response True 200 (Some (JObj []))),
      weather = (\<lambda>lat lon. Rejected),
      now_set = t\<rparr>"

text \<open>A cache with one entry, stored under \<open>berlin\<close> when the clock read 1500.\<close>

definition berlin_cache :: "reading cache_data" where
  "berlin_cache = [ascii ''berlin'' \<mapsto> \<lparr>item_value = berlin_reading, timestamp = 1500\<rparr>]"

text \<open>The same cache with, stored at 5600, the second reading under \<open>paris\<close>.\<close>

definition paris_cache :: "reading cache_data" where
  "paris_cache = berlin_cache(ascii ''paris'' \<mapsto> \<lparr>item_value = paris_reading, timestamp = 5600\<rparr>)"

section \<open>Properties of the validator\<close>

lemma class_matches_city_class: "class_matches city_class c = allowed_char c"
  by (auto simp add: class_matches_def city_class_def allowed_char_def is_letter_def
      is_specified_diacritic_def)

lemma plus_to_end_iff: "plus_to_end cls s \<longleftrightarrow> s \<noteq> [] \<and> (\<forall>c\<in>set s. class_matches cls c)"
  by (induction cls s rule: plus_to_end.induct) auto

lemma city_regex_test_iff: "city_regex_test s \<longleftrightarrow> s \<noteq> [] \<and> (\<forall>c\<in>set s. allowed_char c)"
  by (simp add: city_regex_test_def plus_to_end_iff class_matches_city_class)

text \<open>
  C4. The length checks of \<open>validateCity\<close>, in their order: an input that is empty after
  trimming fails with \<open>EmptyInput\<close>; otherwise a trimmed length below 2 fails with
  \<open>TooShort\<close>; a trimmed length above 50 fails with \<open>TooLong\<close>. The empty string, whose length
  is below 2 as well, is caught by the first check.
\<close>

theorem validateCity_length_checks:
  "(trim raw = [] \<longrightarrow> validateCity raw = Inl EmptyInput) \<and>
   (trim raw \<noteq> [] \<and> length (trim raw) < 2 \<longrightarrow> validateCity raw = Inl TooShort) \<and>
   (length (trim raw) > 50 \<longrightarrow> validateCity raw = Inl TooLong)"
  by (auto simp add: validateCity_def Let_def)

theorem validateCity_length_checks_witness:
  "trim (ascii ''   '') = [] \<and> validateCity (ascii ''   '') = Inl EmptyInput \<and>
   trim (ascii '' B '') \<noteq> [] \<and> length (trim (ascii '' B '')) < 2 \<and>
   validateCity (ascii '' B '') = Inl TooShort \<and>
   length (trim (replicate 51 0x0061)) > 50 \<and>
   validateCity (replicate 51 0x0061) = Inl TooLong"
proof -
  have e: "trim (ascii ''   '') = []"
    by (simp add: trim_def ascii_def isWhiteSpace_def)
  have s: "trim (ascii '' B '') \<noteq> [] \<and> length (trim (ascii '' B '')) < 2"
    by (simp add: trim_def ascii_def isWhiteSpace_def)
  have "trim (replicate 51 (0x0061 :: 16 word)) = replicate 51 0x0061"
    by (simp add: trim_def isWhiteSpace_def dropWhile_replicate)
  then have l: "length (trim (replicate 51 (0x0061 :: 16 word))) > 50"
    by simp
  show ?thesis
    using e s l validateCity_length_checks [of "ascii ''   ''"]
      validateCity_length_checks [of "ascii '' B ''"]
      validateCity_length_checks [of "replicate 51 0x0061"]
    by simp
qed

text \<open>
  C5. For an input whose trimmed form has between 2 and 50 code units, \<open>validateCity\<close> fails
  with \<open>InvalidCharacters\<close> exactly when some code unit of the trimmed string is neither a
  letter, nor one of the specified diacritics, nor white space, nor the hyphen; when all
  of them are, it succeeds with the trimmed string.
\<close>

theorem validateCity_charset:
  assumes "2 \<le> length (trim raw)" and "length (trim raw) \<le> 50"
  shows "(validateCity raw = Inl InvalidCharacters \<longleftrightarrow> (\<exists>c\<in>set (trim raw). \<not> allowed_char c)) \<and>
         ((\<forall>c\<in>set (trim raw). allowed_char c) \<longrightarrow> validateCity raw = Inr (trim raw))"
proof -
  from assms have ne: "trim raw \<noteq> []" by auto
  with assms show ?thesis
    by (auto simp add: validateCity_def Let_def city_regex_test_iff)
qed

theorem validateCity_charset_witness:
  "2 \<le> length (trim (ascii ''Bad Toelz-1'')) \<and> length (trim (ascii ''Bad Toelz-1'')) \<le> 50 \<and>
   validateCity (ascii ''Bad Toelz-1'') = Inl InvalidCharacters \<and>
   2 \<le> length (trim (ascii ''Bad Toelz'')) \<and> length (trim (ascii ''Bad Toelz'')) \<le> 50 \<and>
   validateCity (ascii ''Bad Toelz'') = Inr (ascii ''Bad Toelz'')"
proof -
  have t1: "trim (ascii ''Bad Toelz-1'') = ascii ''Bad Toelz-1''"
    by (simp add: trim_def ascii_def isWhiteSpace_def)
  have t2: "trim (ascii ''Bad Toelz'') = ascii ''Bad Toelz''"
    by (simp add: trim_def ascii_def isWhiteSpace_def)
  have b1: "2 \<le> length (trim (ascii ''Bad Toelz-1''))" "length (trim (ascii ''Bad Toelz-1'')) \<le> 50"
    unfolding t1 by (simp_all add: ascii_def)
  have b2: "2 \<le> length (trim (ascii ''Bad Toelz''))" "length (trim (ascii ''Bad Toelz'')) \<le> 50"
    unfolding t2 by (simp_all add: ascii_def)
  have bad: "\<exists>c\<in>set (trim (ascii ''Bad Toelz-1'')). \<not> allowed_char c"
    unfolding t1
    by (simp add: ascii_def allowed_char_def is_letter_def is_specified_diacritic_def
        isWhiteSpace_def)
  have good: "\<forall>c\<in>set (trim (ascii ''Bad Toelz'')). allowed_char c"
    unfolding t2
    by (simp add: ascii_def allowed_char_def is_letter_def is_specified_diacritic_def
        isWhiteSpace_def)
  show ?thesis
    using validateCity_charset [OF b1] validateCity_charset [OF b2] b1 b2 bad good t2
    by simp
qed

text \<open>
  C6. When \<open>validateCity\<close> succeeds, what it returns is the input with the white space at
  both ends removed and nothing else changed; \<open>validateCity("  Berlin  ")\<close> is \<open>"Berlin"\<close>.
  The function reads its argument only and changes no state: it is a function of the input
  string alone.
\<close>

theorem validateCity_returns_trimmed:
  "(validateCity raw = Inr q \<longrightarrow> q = trim raw) \<and>
   validateCity (ascii ''  Berlin  '') = Inr (ascii ''Berlin'')"
proof
  show "validateCity raw = Inr q \<longrightarrow> q = trim raw"
    by (auto simp add: validateCity_def Let_def split: if_splits)
next
  have t: "trim (ascii ''  Berlin  '') = ascii ''Berlin''"
    by (simp add: trim_def ascii_def isWhiteSpace_def)
  have "\<forall>c\<in>set (ascii ''Berlin''). allowed_char c"
    by (simp add: ascii_def allowed_char_def is_letter_def)
  then show "validateCity (ascii ''  Berlin  '') = Inr (ascii ''Berlin'')"
    by (simp add: validateCity_def Let_def t city_regex_test_iff) (simp add: ascii_def)
qed

theorem validateCity_returns_trimmed_witness:
  "validateCity (ascii '' New York '') = Inr (ascii ''New York'') \<and>
   ascii ''New York'' = trim (ascii '' New York '')"
proof -
  have t: "trim (ascii '' New York '') = ascii ''New York''"
    by (simp add: trim_def ascii_def isWhiteSpace_def)
  have "\<forall>c\<in>set (ascii ''New York''). allowed_char c"
    by (simp add: ascii_def allowed_char_def is_letter_def isWhiteSpace_def)
  then have v: "validateCity (ascii '' New York '') = Inr (ascii ''New York'')"
    by (simp add: validateCity_def Let_def t city_regex_test_iff) (simp add: ascii_def)
  show ?thesis
    using v validateCity_returns_trimmed [of "ascii '' New York ''" "ascii ''New York''"]
    by simp
qed

text \<open>
  C10. White space other than the space character is accepted between letters: for the
  three code units \<open>a\<close>, TAB, \<open>b\<close> the validator succeeds and returns them unchanged, the TAB
  included; the same holds with a line feed in the middle.
\<close>

theorem validateCity_accepts_tab:
  "validateCity [0x0061, 0x0009, 0x0062] = Inr [0x0061, 0x0009, 0x0062] \<and>
   validateCity [0x0061, 0x000A, 0x0062] = Inr [0x0061, 0x000A, 0x0062]"
  by (simp add: validateCity_def Let_def trim_def isWhiteSpace_def city_regex_test_def
      city_class_def class_matches_def)

section \<open>Auxiliary facts\<close>

lemma CACHE_DURATION_ms: "CACHE_DURATION = 300000"
  by (simp add: CACHE_DURATION_def)

lemma Cache_get_None:
  assumes "Cache_get data now key = (None, data1)"
  shows "data1 = data(key := None)"
    and "\<And>it. data key = Some it \<Longrightarrow> now - timestamp it > CACHE_DURATION"
  using assms by (auto simp add: Cache_get_def split: option.splits if_splits)

lemma Cache_get_miss:
  assumes "\<forall>it. data key = Some it \<longrightarrow> now - timestamp it > CACHE_DURATION"
  shows "Cache_get data now key = (None, data(key := None))"
  using assms by (auto simp add: Cache_get_def split: option.splits)

lemma Cache_get_frame: "k \<noteq> key \<Longrightarrow> snd (Cache_get data now key) k = data k"
  by (simp add: Cache_get_def split: option.splits)

lemma getCoordinates_trace:
  assumes "getCoordinates geo cty = (res, tr)"
  shows "tr = [] \<or> tr = [GeoFetch cty]" and "res = Inr loc \<Longrightarrow> tr = [GeoFetch cty]"
  using assms by (auto simp add: getCoordinates_def split: if_splits)

lemma getWeather_trace:
  assumes "getWeather wx lat lon = (res, tr)"
  shows "tr = [] \<or> tr = [WeatherFetch lat lon]" and "res = Inr t \<Longrightarrow> tr = [WeatherFetch lat lon]"
  using assms by (auto simp add: getWeather_def split: if_splits)

lemma getTemperature_cases [consumes 1, case_names hit geo_fail weather_fail stored]:
  assumes "getTemperature lc data e cty = (res, data', tr)"
  obtains
    r where "Cache_get data (now_get e) (lc cty) = (Some r, data')"
      and "res = Inr r" and "tr = [CacheGet (lc cty)]"
  | err tr1 where "Cache_get data (now_get e) (lc cty) = (None, data')"
      and "getCoordinates (geocoding e) cty = (Inl err, tr1)"
      and "res = Inl err" and "tr = CacheGet (lc cty) # tr1"
  | loc err tr2 where "Cache_get data (now_get e) (lc cty) = (None, data')"
      and "getCoordinates (geocoding e) cty = (Inr loc, [GeoFetch cty])"
      and "getWeather (weather e) (latitude loc) (longitude loc) = (Inl err, tr2)"
      and "res = Inl err" and "tr = CacheGet (lc cty) # GeoFetch cty # tr2"
  | loc t data1 where "Cache_get data (now_get e) (lc cty) = (None, data1)"
      and "getCoordinates (geocoding e) cty = (Inr loc, [GeoFetch cty])"
      and "getWeather (weather e) (latitude loc) (longitude loc)
             = (Inr t, [WeatherFetch (latitude loc) (longitude loc)])"
      and "res = Inr \<lparr>city = name loc, country = loc_country loc, temperature = t\<rparr>"
      and "data' = Cache_set data1 (now_set e) (lc cty)
                     \<lparr>city = name loc, country = loc_country loc, temperature = t\<rparr>"
      and "tr = [CacheGet (lc cty), GeoFetch cty,
                 WeatherFetch (latitude loc) (longitude loc), CacheSet (lc cty)]"
proof -
  obtain cached data1 where g: "Cache_get data (now_get e) (lc cty) = (cached, data1)"
    by (cases "Cache_get data (now_get e) (lc cty)")
  show thesis
  proof (cases cached)
    case (Some r)
    with assms g that(1) show thesis
      by (auto simp add: getTemperature_def Let_def)
  next
    case None
    obtain rc tr1 where c: "getCoordinates (geocoding e) cty = (rc, tr1)"
      by (cases "getCoordinates (geocoding e) cty")
    show thesis
    proof (cases rc)
      case (Inl err)
      with assms g None c that(2) show thesis
        by (auto simp add: getTemperature_def Let_def)
    next
      case (Inr loc)
      with c have tr1: "tr1 = [GeoFetch cty]"
        using getCoordinates_trace(2) by blast
      obtain rw tr2 where w: "getWeather (weather e) (latitude loc) (longitude loc) = (rw, tr2)"
        by (cases "getWeather (weather e) (latitude loc) (longitude loc)")
      show thesis
      proof (cases rw)
        case (Inl err)
        with assms g None c Inr tr1 w that(3) show thesis
          by (auto simp add: getTemperature_def Let_def)
      next
        case (Inr t)
        with w have tr2: "tr2 = [WeatherFetch (latitude loc) (longitude loc)]"
          using getWeather_trace(2) by blast
        from assms g None c \<open>rc = Inr loc\<close> tr1 w Inr tr2 that(4) show thesis
          by (auto simp add: getTemperature_def Let_def)
      qed
    qed
  qed
qed

text \<open>From the answers of the two endpoints to the results of the two clients.\<close>

lemma location_of_good:
  assumes "get_prop body (ascii ''results'') = Inr results" and "truthy results"
    and "get_prop results (ascii ''length'') \<noteq> Inr (JNum 0)"
    and "get_index0 results = Inr first"
    and "get_prop first (ascii ''latitude'') = Inr lat"
    and "get_prop first (ascii ''longitude'') = Inr lon"
    and "get_prop first (ascii ''name'') = Inr nm"
    and "get_prop first (ascii ''country'') = Inr c"
  shows "location_of cty body =
           Inr \<lparr>latitude = lat, longitude = lon, name = nm,
                loc_country = (if truthy c then c else JStr [])\<rparr>"
proof -
  from assms(2) obtain len where "get_prop results (ascii ''length'') = Inr len"
    by (cases results) auto
  with assms show ?thesis
    by (simp add: location_of_def)
qed

lemma temperature_of_good:
  assumes "get_prop wbody (ascii ''current'') = Inr cur" and "truthy cur"
    and "get_prop cur (ascii ''temperature_2m'') = Inr t" and "t \<noteq> JUndefined"
  shows "temperature_of wbody = Inr t"
  using assms by (simp add: temperature_of_def)

lemma location_of_Inr:
  assumes "location_of cty body = Inr loc"
  shows "\<exists>results first c.
           get_prop body (ascii ''results'') = Inr results \<and> truthy results \<and>
           get_prop results (ascii ''length'') \<noteq> Inr (JNum 0) \<and>
           get_index0 results = Inr first \<and>
           get_prop first (ascii ''latitude'') = Inr (latitude loc) \<and>
           get_prop first (ascii ''longitude'') = Inr (longitude loc) \<and>
           get_prop first (ascii ''name'') = Inr (name loc) \<and>
           get_prop first (ascii ''country'') = Inr c \<and>
           loc_country loc = (if truthy c then c else JStr [])"
  using assms unfolding location_of_def
  by (auto split: sum.splits if_splits)

lemma getCoordinates_Inr:
  assumes "getCoordinates geo cty = (Inr loc, tr)"
  shows "\<not> lone_surrogate cty \<and>
         (\<exists>st body. geo cty = Response True st (Some body) \<and> location_of cty body = Inr loc)"
  using assms unfolding getCoordinates_def
  by (auto split: if_splits fetch_result.splits option.splits)

lemma temperature_of_Inr:
  assumes "temperature_of body = Inr t"
  shows "t \<noteq> JUndefined \<and>
         (\<exists>cur. get_prop body (ascii ''current'') = Inr cur \<and> truthy cur \<and>
                get_prop cur (ascii ''temperature_2m'') = Inr t)"
  using assms unfolding temperature_of_def
  by (auto split: sum.splits if_splits)

lemma getWeather_Inr:
  assumes "getWeather wx lat lon = (Inr t, tr)"
  shows "\<not> toString_throws lat \<and> \<not> toString_throws lon \<and>
         (\<exists>st body. wx lat lon = Response True st (Some body) \<and> temperature_of body = Inr t)"
  using assms unfolding getWeather_def
  by (auto split: if_splits fetch_result.splits option.splits)

text \<open>
  A call that finds no fresh entry and gets good answers from both endpoints returns the
  reading assembled from them and stores it.
\<close>

lemma getTemperature_good_answers:
  assumes miss: "\<forall>it. data (lc cty) = Some it \<longrightarrow> now_get e - timestamp it > 300000"
    and city: "\<not> lone_surrogate cty"
    and geo: "geocoding e cty = Response True st (Some body)"
    and results: "get_prop body (ascii ''results'') = Inr results" "truthy results"
      "get_prop results (ascii ''length'') \<noteq> Inr (JNum 0)"
    and first: "get_index0 results = Inr first"
      "get_prop first (ascii ''latitude'') = Inr lat"
      "get_prop first (ascii ''longitude'') = Inr lon"
      "get_prop first (ascii ''name'') = Inr nm"
      "get_prop first (ascii ''country'') = Inr c"
    and url: "\<not> toString_throws lat" "\<not> toString_throws lon"
    and wx: "weather e lat lon = Response True st' (Some wbody)"
    and cur: "get_prop wbody (ascii ''current'') = Inr cur" "truthy cur"
      "get_prop cur (ascii ''temperature_2m'') = Inr t" "t \<noteq> JUndefined"
  shows "getTemperature lc data e cty =
           (Inr \<lparr>city = nm, country = (if truthy c then c else JStr []), temperature = t\<rparr>,
            data(lc cty \<mapsto>
              \<lparr>item_value = \<lparr>city = nm, country = (if truthy c then c else JStr []), temperature = t\<rparr>,
               timestamp = now_set e\<rparr>),
            [CacheGet (lc cty), GeoFetch cty, WeatherFetch lat lon, CacheSet (lc cty)])"
proof -
  from miss have g: "Cache_get data (now_get e) (lc cty) = (None, data(lc cty := None))"
    by (intro Cache_get_miss) (simp add: CACHE_DURATION_ms)
  have l: "location_of cty body =
      Inr \<lparr>latitude = lat, longitude = lon, name = nm,
           loc_country = (if truthy c then c else JStr [])\<rparr>"
    by (rule location_of_good [OF results first])
  have t: "temperature_of wbody = Inr t"
    by (rule temperature_of_good [OF cur])
  from city geo l have c: "getCoordinates (geocoding e) cty =
      (Inr \<lparr>latitude = lat, longitude = lon, name = nm,
            loc_country = (if truthy c then c else JStr [])\<rparr>, [GeoFetch cty])"
    by (simp add: getCoordinates_def)
  from url wx t have w: "getWeather (weather e) lat lon = (Inr t, [WeatherFetch lat lon])"
    by (simp add: getWeather_def)
  from g c w show ?thesis
    by (simp add: getTemperature_def Let_def Cache_set_def)
qed

text \<open>A call within the time to live after a call that stored finds the stored reading.\<close>

lemma second_call_hits:
  assumes first: "getTemperature lc data e1 a = (res1, data1, tr1)"
    and stored: "CacheSet (lc a) \<in> set tr1"
    and within: "now_get e2 - now_set e1 \<le> CACHE_DURATION"
    and key: "lc b = lc a"
    and second: "getTemperature lc data1 e2 b = (res2, data2, tr2)"
  shows "\<exists>r lat lon. res1 = Inr r \<and>
           data1 (lc a) = Some \<lparr>item_value = r, timestamp = now_set e1\<rparr> \<and>
           tr1 = [CacheGet (lc a), GeoFetch a, WeatherFetch lat lon, CacheSet (lc a)] \<and>
           res2 = Inr r \<and> data2 = data1 \<and> tr2 = [CacheGet (lc a)]"
  using first
proof (cases rule: getTemperature_cases)
  case (hit r)
  with stored show ?thesis by simp
next
  case (geo_fail err tr1')
  with stored getCoordinates_trace(1) [OF geo_fail(2)] show ?thesis by auto
next
  case (weather_fail loc err tr2')
  with stored getWeather_trace(1) [OF weather_fail(3)] show ?thesis by auto
next
  case (stored loc t d1)
  let ?r = "\<lparr>city = name loc, country = loc_country loc, temperature = t\<rparr>"
  have entry: "data1 (lc a) = Some \<lparr>item_value = ?r, timestamp = now_set e1\<rparr>"
    using stored(5) by (simp add: Cache_set_def)
  with within key have "Cache_get data1 (now_get e2) (lc b) = (Some ?r, data1)"
    by (simp add: Cache_get_def)
  with second key have "res2 = Inr ?r \<and> data2 = data1 \<and> tr2 = [CacheGet (lc a)]"
    by (simp add: getTemperature_def)
  with stored(4,6) entry show ?thesis by blast
qed

text \<open>The examples.\<close>

lemma example_toLowerCase_Berlin: "example_toLowerCase (ascii ''Berlin'') = ascii ''berlin''"
  by (simp add: example_toLowerCase_def toLowerCase_table_def toLowerCase_unit_def in_table_def
      is_upper_def ascii_def)

lemma example_toLowerCase_Paris: "example_toLowerCase (ascii ''Paris'') = ascii ''paris''"
  by (simp add: example_toLowerCase_def toLowerCase_table_def toLowerCase_unit_def in_table_def
      is_upper_def ascii_def)

lemma agrees_example: "agrees_with_table example_toLowerCase"
  by (simp add: agrees_with_table_def example_toLowerCase_def)

lemma lone_surrogate_Berlin: "\<not> lone_surrogate (ascii ''Berlin'')"
  by (simp add: ascii_def)

lemma lone_surrogate_Paris: "\<not> lone_surrogate (ascii ''Paris'')"
  by (simp add: ascii_def)

lemma getTemperature_berlin_bodies:
  assumes "\<forall>it. data (lc cty) = Some it \<longrightarrow> now_get e - timestamp it > 300000"
    and "\<not> lone_surrogate cty"
    and "geocoding e cty = Response True st (Some berlin_geo)"
    and "weather e (JNum 52.52) (JNum 13.405) = Response True st' (Some berlin_weather)"
  shows "getTemperature lc data e cty =
           (Inr berlin_reading,
            data(lc cty \<mapsto> \<lparr>item_value = berlin_reading, timestamp = now_set e\<rparr>),
            [CacheGet (lc cty), GeoFetch cty, WeatherFetch (JNum 52.52) (JNum 13.405),
             CacheSet (lc cty)])"
proof -
  let ?first = "JObj [(ascii ''latitude'', JNum 52.52), (ascii ''longitude'', JNum 13.405),
                      (ascii ''name'', JStr (ascii ''Berlin'')),
                      (ascii ''country'', JStr (ascii ''Germany''))]"
  let ?cur = "JObj [(ascii ''temperature_2m'', JNum 9.3)]"
  have r: "get_prop berlin_geo (ascii ''results'') = Inr (JArr [?first])" "truthy (JArr [?first])"
    "get_prop (JArr [?first]) (ascii ''length'') \<noteq> Inr (JNum 0)"
    by (simp_all add: berlin_geo_def)
  have f: "get_index0 (JArr [?first]) = Inr ?first"
    "get_prop ?first (ascii ''latitude'') = Inr (JNum 52.52)"
    "get_prop ?first (ascii ''longitude'') = Inr (JNum 13.405)"
    "get_prop ?first (ascii ''name'') = Inr (JStr (ascii ''Berlin''))"
    "get_prop ?first (ascii ''country'') = Inr (JStr (ascii ''Germany''))"
    by (simp_all add: ascii_def)
  have u: "\<not> toString_throws (JNum 52.52)" "\<not> toString_throws (JNum 13.405)"
    by simp_all
  have c: "get_prop berlin_weather (ascii ''current'') = Inr ?cur" "truthy ?cur"
    "get_prop ?cur (ascii ''temperature_2m'') = Inr (JNum 9.3)" "JNum 9.3 \<noteq> JUndefined"
    by (simp_all add: berlin_weather_def)
  from getTemperature_good_answers [where lc = lc and data = data and e = e and cty = cty,
      OF assms(1) assms(2) assms(3) r f u assms(4) c]
  show ?thesis
    by (simp add: berlin_reading_def ascii_def)
qed

lemma getTemperature_Berlin_empty:
  "getTemperature example_toLowerCase Map.empty berlin_env (ascii ''Berlin'') =
     (Inr berlin_reading, berlin_cache,
      [CacheGet (ascii ''berlin''), GeoFetch (ascii ''Berlin''),
       WeatherFetch (JNum 52.52) (JNum 13.405), CacheSet (ascii ''berlin'')])"
proof -
  have "getTemperature example_toLowerCase Map.empty berlin_env (ascii ''Berlin'') =
     (Inr berlin_reading,
      Map.empty(example_toLowerCase (ascii ''Berlin'') \<mapsto>
        \<lparr>item_value = berlin_reading, timestamp = now_set berlin_env\<rparr>),
      [CacheGet (example_toLowerCase (ascii ''Berlin'')), GeoFetch (ascii ''Berlin''),
       WeatherFetch (JNum 52.52) (JNum 13.405), CacheSet (example_toLowerCase (ascii ''Berlin''))])"
    by (rule getTemperature_berlin_bodies [where lc = example_toLowerCase and st = 200 and st' = 200])
      (simp_all add: lone_surrogate_Berlin berlin_env_def)
  then show ?thesis
    by (simp add: example_toLowerCase_Berlin berlin_cache_def berlin_env_def)
qed

lemma getTemperature_Berlin_not_found:
  "getTemperature example_toLowerCase berlin_cache (not_found_env 301501) (ascii ''Berlin'') =
     (Inl (CityNotFound (ascii ''Berlin'')), berlin_cache(ascii ''berlin'' := None),
      [CacheGet (ascii ''berlin''), GeoFetch (ascii ''Berlin'')])"
  by (simp add: getTemperature_def Let_def example_toLowerCase_Berlin Cache_get_def berlin_cache_def
      CACHE_DURATION_def not_found_env_def getCoordinates_def lone_surrogate_Berlin location_of_def)

section \<open>Properties of the cache and of getTemperature\<close>

text \<open>
  C1. Two calls of \<open>getTemperature\<close> for the same city, the second after the first has
  returned. The first call finds no fresh entry for the city, the city is a well-formed
  string, and both endpoints answer it with an \<open>ok\<close> response whose body has what the
  program reads: a first result in \<open>results\<close>, and \<open>current.temperature_2m\<close>. The clock at the
  lookup of the second call is at most 300000 ms past the clock at the store of the first.
  Then the first call returns the reading assembled from the answers and stores it under
  the lower-cased city; the second call returns the same reading, sends no request and
  leaves the cache as it is; the requests of both calls together are one geocoding request
  followed by one weather request.
\<close>

theorem getTemperature_twice_within_ttl:
  assumes miss: "\<forall>it. data (lc cty) = Some it \<longrightarrow> now_get e1 - timestamp it > 300000"
    and city: "\<not> lone_surrogate cty"
    and geo: "geocoding e1 cty = Response True st (Some body)"
    and results: "get_prop body (ascii ''results'') = Inr results" "truthy results"
      "get_prop results (ascii ''length'') \<noteq> Inr (JNum 0)"
    and first_result: "get_index0 results = Inr first"
      "get_prop first (ascii ''latitude'') = Inr lat"
      "get_prop first (ascii ''longitude'') = Inr lon"
      "get_prop first (ascii ''name'') = Inr nm"
      "get_prop first (ascii ''country'') = Inr c"
    and url: "\<not> toString_throws lat" "\<not> toString_throws lon"
    and wx: "weather e1 lat lon = Response True st' (Some wbody)"
    and cur: "get_prop wbody (ascii ''current'') = Inr cur" "truthy cur"
      "get_prop cur (ascii ''temperature_2m'') = Inr t" "t \<noteq> JUndefined"
    and reading: "r = \<lparr>city = nm, country = (if truthy c then c else JStr []), temperature = t\<rparr>"
    and within: "now_get e2 - now_set e1 \<le> 300000"
    and first: "getTemperature lc data e1 cty = (res1, data1, tr1)"
    and second: "getTemperature lc data1 e2 cty = (res2, data2, tr2)"
  shows "res1 = Inr r \<and>
         data1 = data(lc cty \<mapsto> \<lparr>item_value = r, timestamp = now_set e1\<rparr>) \<and>
         res2 = Inr r \<and> data2 = data1 \<and> filter is_fetch tr2 = [] \<and>
         filter is_fetch (tr1 @ tr2) = [GeoFetch cty, WeatherFetch lat lon]"
proof -
  note g = getTemperature_good_answers [where lc = lc and data = data and e = e1 and cty = cty,
      OF miss city geo results first_result url wx cur]
  with first reading have 1: "res1 = Inr r"
    "data1 = data(lc cty \<mapsto> \<lparr>item_value = r, timestamp = now_set e1\<rparr>)"
    "tr1 = [CacheGet (lc cty), GeoFetch cty, WeatherFetch lat lon, CacheSet (lc cty)]"
    by simp_all
  from 1(3) have stored: "CacheSet (lc cty) \<in> set tr1"
    by simp
  from within have "now_get e2 - now_set e1 \<le> CACHE_DURATION"
    by (simp add: CACHE_DURATION_ms)
  from second_call_hits [OF first stored this refl second] 1
  have "res2 = Inr r \<and> data2 = data1 \<and> tr2 = [CacheGet (lc cty)]"
    by auto
  with 1 show ?thesis by simp
qed

theorem getTemperature_twice_within_ttl_witness:
  "berlin_cache (example_toLowerCase (ascii ''Paris'')) = None \<and>
   \<not> lone_surrogate (ascii ''Paris'') \<and>
   geocoding paris_env (ascii ''Paris'') = Response True 200 (Some paris_geo) \<and>
   weather paris_env (JNum 48.85) (JNum 2.35) = Response True 200 (Some paris_weather) \<and>
   now_get (offline_env 305600) - now_set paris_env \<le> 300000 \<and>
   fst (getTemperature example_toLowerCase berlin_cache paris_env (ascii ''Paris'')) = Inr paris_reading \<and>
   fst (snd (getTemperature example_toLowerCase berlin_cache paris_env (ascii ''Paris''))) = paris_cache \<and>
   fst (getTemperature example_toLowerCase paris_cache (offline_env 305600) (ascii ''Paris''))
     = Inr paris_reading \<and>
   fst (snd (getTemperature example_toLowerCase paris_cache (offline_env 305600) (ascii ''Paris'')))
     = paris_cache \<and>
   filter is_fetch
     (snd (snd (getTemperature example_toLowerCase paris_cache (offline_env 305600) (ascii ''Paris''))))
     = [] \<and>
   filter is_fetch
     (snd (snd (getTemperature example_toLowerCase berlin_cache paris_env (ascii ''Paris''))) @
      snd (snd (getTemperature example_toLowerCase paris_cache (offline_env 305600) (ascii ''Paris''))))
     = [GeoFetch (ascii ''Paris''), WeatherFetch (JNum 48.85) (JNum 2.35)]"
proof -
  let ?lc = example_toLowerCase and ?P = "ascii ''Paris''"
  let ?first_obj = "JObj [(ascii ''latitude'', JNum 48.85), (ascii ''longitude'', JNum 2.35),
                          (ascii ''name'', JStr (ascii ''Paris''))]"
  let ?cur = "JObj [(ascii ''temperature_2m'', JNum 0)]"
  let ?one = "getTemperature ?lc berlin_cache paris_env ?P"
  let ?two = "getTemperature ?lc (fst (snd ?one)) (offline_env 305600) ?P"
  have none: "berlin_cache (?lc ?P) = None"
    unfolding example_toLowerCase_Paris by (simp add: berlin_cache_def ascii_def)
  then have miss: "\<forall>it. berlin_cache (?lc ?P) = Some it \<longrightarrow> now_get paris_env - timestamp it > 300000"
    by simp
  have geo: "geocoding paris_env ?P = Response True 200 (Some paris_geo)"
    and wx: "weather paris_env (JNum 48.85) (JNum 2.35) = Response True 200 (Some paris_weather)"
    by (simp_all add: paris_env_def)
  have r: "get_prop paris_geo (ascii ''results'') = Inr (JArr [?first_obj])" "truthy (JArr [?first_obj])"
    "get_prop (JArr [?first_obj]) (ascii ''length'') \<noteq> Inr (JNum 0)"
    by (simp_all add: paris_geo_def)
  have f: "get_index0 (JArr [?first_obj]) = Inr ?first_obj"
    "get_prop ?first_obj (ascii ''latitude'') = Inr (JNum 48.85)"
    "get_prop ?first_obj (ascii ''longitude'') = Inr (JNum 2.35)"
    "get_prop ?first_obj (ascii ''name'') = Inr (JStr (ascii ''Paris''))"
    "get_prop ?first_obj (ascii ''country'') = Inr JUndefined"
    by (simp_all add: ascii_def)
  have u: "\<not> toString_throws (JNum 48.85)" "\<not> toString_throws (JNum 2.35)"
    by simp_all
  have c: "get_prop paris_weather (ascii ''current'') = Inr ?cur" "truthy ?cur"
    "get_prop ?cur (ascii ''temperature_2m'') = Inr (JNum 0)" "JNum 0 \<noteq> JUndefined"
    by (simp_all add: paris_weather_def)
  have rd: "paris_reading = \<lparr>city = JStr (ascii ''Paris''),
      country = (if truthy JUndefined then JUndefined else JStr []), temperature = JNum 0\<rparr>"
    by (simp add: paris_reading_def)
  have within: "now_get (offline_env 305600) - now_set paris_env \<le> 300000"
    by (simp add: offline_env_def paris_env_def)
  have one: "?one = (fst ?one, fst (snd ?one), snd (snd ?one))"
    and two: "?two = (fst ?two, fst (snd ?two), snd (snd ?two))"
    by simp_all
  note t = getTemperature_twice_within_ttl [where lc = ?lc and data = berlin_cache
      and ?e1.0 = paris_env and cty = ?P and ?e2.0 = "offline_env 305600",
      OF miss lone_surrogate_Paris geo r f u wx c rd within one two]
  from t have d: "fst (snd ?one) = paris_cache"
    by (simp add: paris_cache_def example_toLowerCase_Paris paris_env_def)
  from t have "fst ?one = Inr paris_reading" and "fst ?two = Inr paris_reading"
    and "fst (snd ?two) = fst (snd ?one)" and "filter is_fetch (snd (snd ?two)) = []"
    and "filter is_fetch (snd (snd ?one) @ snd (snd ?two)) =
          [GeoFetch ?P, WeatherFetch (JNum 48.85) (JNum 2.35)]"
    by blast+
  note facts = this [unfolded d]
  from facts d none lone_surrogate_Paris geo wx within show ?thesis
    by blast
qed

lemma getTemperature_failure:
  assumes "getTemperature lc data e cty = (Inl err, data', tr)"
  shows "Cache_get data (now_get e) (lc cty) = (None, data')"
    and "CacheSet k \<notin> set tr"
proof -
  from assms have "Cache_get data (now_get e) (lc cty) = (None, data') \<and> CacheSet k \<notin> set tr"
  proof (cases rule: getTemperature_cases)
    case (geo_fail err' tr1)
    with getCoordinates_trace(1) [OF geo_fail(2)] show ?thesis by auto
  next
    case (weather_fail loc err' tr2)
    with getWeather_trace(1) [OF weather_fail(3)] show ?thesis by auto
  qed simp_all
  then show "Cache_get data (now_get e) (lc cty) = (None, data')"
    and "CacheSet k \<notin> set tr" by simp_all
qed

text \<open>
  C2, as amended. When \<open>getTemperature\<close> fails, with whatever error, \<open>Cache.set\<close> was not
  called; the cache after the call is the cache before it without the entry under the
  lower-cased city, an entry that had expired when the call looked it up; when there was
  no entry under that key the cache is exactly as before.
\<close>

theorem getTemperature_failure_cache:
  assumes "getTemperature lc data e cty = (Inl err, data', tr)"
  shows "data' = data(lc cty := None) \<and>
         (\<forall>it. data (lc cty) = Some it \<longrightarrow> now_get e - timestamp it > 300000) \<and>
         (data (lc cty) = None \<longrightarrow> data' = data) \<and>
         (\<forall>k. CacheSet k \<notin> set tr)"
proof -
  note g = getTemperature_failure(1) [OF assms]
  have "data' = data(lc cty := None)"
    by (rule Cache_get_None(1) [OF g])
  moreover have "\<forall>it. data (lc cty) = Some it \<longrightarrow> now_get e - timestamp it > 300000"
    using Cache_get_None(2) [OF g] by (simp add: CACHE_DURATION_ms)
  moreover have "\<forall>k. CacheSet k \<notin> set tr"
    using getTemperature_failure(2) [OF assms] by blast
  ultimately show ?thesis by auto
qed

theorem getTemperature_failure_cache_witness:
  "getTemperature example_toLowerCase berlin_cache (not_found_env 301501) (ascii ''Berlin'') =
     (Inl (CityNotFound (ascii ''Berlin'')), berlin_cache(ascii ''berlin'' := None),
      [CacheGet (ascii ''berlin''), GeoFetch (ascii ''Berlin'')]) \<and>
   berlin_cache (example_toLowerCase (ascii ''Berlin'')) =
     Some \<lparr>item_value = berlin_reading, timestamp = 1500\<rparr> \<and>
   now_get (not_found_env 301501) - 1500 > 300000"
proof -
  note r = getTemperature_Berlin_not_found
  have entry: "berlin_cache (example_toLowerCase (ascii ''Berlin'')) =
      Some \<lparr>item_value = berlin_reading, timestamp = 1500\<rparr>"
    by (simp add: example_toLowerCase_Berlin berlin_cache_def)
  from getTemperature_failure_cache [OF r] entry
  have "now_get (not_found_env 301501) - 1500 > 300000"
    by simp
  with r entry show ?thesis by blast
qed

text \<open>
  C2, as stated, fails: with an entry stored under \<open>berlin\<close> at 1500 and the clock at
  301501, \<open>getTemperature("Berlin")\<close> fails with \<open>CityNotFound\<close> and the entry is gone.
\<close>

theorem getTemperature_failure_changes_cache:
  "fst (getTemperature example_toLowerCase berlin_cache (not_found_env 301501) (ascii ''Berlin'')) =
     Inl (CityNotFound (ascii ''Berlin'')) \<and>
   berlin_cache (ascii ''berlin'') = Some \<lparr>item_value = berlin_reading, timestamp = 1500\<rparr> \<and>
   fst (snd (getTemperature example_toLowerCase berlin_cache (not_found_env 301501) (ascii ''Berlin'')))
     (ascii ''berlin'') = None \<and>
   fst (snd (getTemperature example_toLowerCase berlin_cache (not_found_env 301501) (ascii ''Berlin'')))
     \<noteq> berlin_cache"
proof -
  have e: "berlin_cache (ascii ''berlin'') = Some \<lparr>item_value = berlin_reading, timestamp = 1500\<rparr>"
    by (simp add: berlin_cache_def)
  have n: "(berlin_cache(ascii ''berlin'' := None)) (ascii ''berlin'') = None"
    by simp
  from e n have "berlin_cache(ascii ''berlin'' := None) \<noteq> berlin_cache"
    by (metis option.distinct(1))
  with e show ?thesis
    by (simp add: getTemperature_Berlin_not_found)
qed

text \<open>
  C3, as amended. \<open>Cache.get\<close> looks up the key that it is given, as it is given (the caller
  \<open>getTemperature\<close> passes the lower-cased city). It returns the stored value exactly when
  there is an entry under that key with \<open>now - timestamp \<le> 300000\<close>, and then leaves the map
  as it is; an entry that is older is removed from the map and the result is absent;
  without an entry the result is absent and the map unchanged. \<open>CACHE_DURATION\<close> is
  300000 ms.
\<close>

theorem Cache_get_as_given:
  "(fst (Cache_get data now key) = Some v \<longleftrightarrow>
      (\<exists>it. data key = Some it \<and> item_value it = v \<and> now - timestamp it \<le> 300000)) \<and>
   (\<forall>it. data key = Some it \<and> now - timestamp it \<le> 300000 \<longrightarrow>
      Cache_get data now key = (Some (item_value it), data)) \<and>
   (\<forall>it. data key = Some it \<and> now - timestamp it > 300000 \<longrightarrow>
      Cache_get data now key = (None, data(key := None))) \<and>
   (data key = None \<longrightarrow> Cache_get data now key = (None, data)) \<and>
   CACHE_DURATION = 300000"
  by (auto simp add: Cache_get_def CACHE_DURATION_def split: option.splits)

theorem Cache_get_as_given_witness:
  "berlin_cache (ascii ''berlin'') = Some \<lparr>item_value = berlin_reading, timestamp = 1500\<rparr> \<and>
   2000 - 1500 \<le> (300000 :: int) \<and>
   Cache_get berlin_cache 2000 (ascii ''berlin'') = (Some berlin_reading, berlin_cache) \<and>
   301501 - 1500 > (300000 :: int) \<and>
   Cache_get berlin_cache 301501 (ascii ''berlin'') = (None, berlin_cache(ascii ''berlin'' := None)) \<and>
   berlin_cache (ascii ''Berlin'') = None \<and>
   Cache_get berlin_cache 2000 (ascii ''Berlin'') = (None, berlin_cache)"
proof -
  have e: "berlin_cache (ascii ''berlin'') = Some \<lparr>item_value = berlin_reading, timestamp = 1500\<rparr>"
    by (simp add: berlin_cache_def)
  have a: "berlin_cache (ascii ''Berlin'') = None"
    by (simp add: berlin_cache_def ascii_def)
  show ?thesis
    using e a
      Cache_get_as_given [of berlin_cache 2000 "ascii ''berlin''" berlin_reading]
      Cache_get_as_given [of berlin_cache 301501 "ascii ''berlin''" berlin_reading]
      Cache_get_as_given [of berlin_cache 2000 "ascii ''Berlin''" berlin_reading]
    by simp
qed

text \<open>
  C3, as stated, fails: with a fresh entry under \<open>berlin\<close>, the lower-cased form of
  \<open>Berlin\<close>, \<open>Cache.get("Berlin")\<close> returns absent.
\<close>

theorem Cache_get_not_normalized:
  "toLowerCase_table (ascii ''Berlin'') = Some (ascii ''berlin'') \<and>
   berlin_cache (ascii ''berlin'') = Some \<lparr>item_value = berlin_reading, timestamp = 1500\<rparr> \<and>
   2000 - 1500 \<le> (300000 :: int) \<and>
   Cache_get berlin_cache 2000 (ascii ''Berlin'') = (None, berlin_cache)"
proof -
  have "berlin_cache (ascii ''Berlin'') = None"
    by (simp add: berlin_cache_def ascii_def)
  then have "Cache_get berlin_cache 2000 (ascii ''Berlin'') = (None, berlin_cache)"
    by (simp add: Cache_get_def)
  moreover have "toLowerCase_table (ascii ''Berlin'') = Some (ascii ''berlin'')"
    by (simp add: toLowerCase_table_def toLowerCase_unit_def in_table_def is_upper_def ascii_def)
  ultimately show ?thesis
    by (simp add: berlin_cache_def)
qed

lemma getTemperature_stored:
  assumes "getTemperature lc data e cty = (res, data', tr)"
    and "CacheSet k \<in> set tr"
  obtains loc t where "getCoordinates (geocoding e) cty = (Inr loc, [GeoFetch cty])"
    and "getWeather (weather e) (latitude loc) (longitude loc)
           = (Inr t, [WeatherFetch (latitude loc) (longitude loc)])"
    and "res = Inr \<lparr>city = name loc, country = loc_country loc, temperature = t\<rparr>"
  using assms(1)
proof (cases rule: getTemperature_cases)
  case (hit r)
  with assms(2) show ?thesis by simp
next
  case (geo_fail err tr1)
  with assms(2) getCoordinates_trace(1) [OF geo_fail(2)] show ?thesis by auto
next
  case (weather_fail loc err tr2)
  with assms(2) getWeather_trace(1) [OF weather_fail(3)] show ?thesis by auto
next
  case (stored loc t data1)
  with that show ?thesis by blast
qed

text \<open>
  C7. A call of \<open>getTemperature\<close> that finds no fresh entry, for a well-formed city, to which
  both endpoints answer with an \<open>ok\<close> response and a body that has what the program reads,
  returns the reading made of the \<open>name\<close> of the first element of \<open>results\<close>, of its
  \<open>country\<close> when that is truthy and the empty string otherwise (so the empty string when
  the property is absent), and of \<open>current.temperature_2m\<close> of the weather body as it came,
  whatever value that is. Conversely, a reading that \<open>getTemperature\<close> has assembled and
  stored itself (not one taken from the cache) comes from such answers, the weather
  request having been sent for the \<open>latitude\<close> and \<open>longitude\<close> of that first element.
  With the two bodies of the example the result is the reading Berlin, Germany, 9.3.
\<close>

theorem getTemperature_reading:
  "((\<forall>it. data (lc cty) = Some it \<longrightarrow> now_get e - timestamp it > 300000) \<and>
    \<not> lone_surrogate cty \<and>
    geocoding e cty = Response True st (Some body) \<and>
    get_prop body (ascii ''results'') = Inr results \<and> truthy results \<and>
    get_prop results (ascii ''length'') \<noteq> Inr (JNum 0) \<and>
    get_index0 results = Inr first \<and>
    get_prop first (ascii ''latitude'') = Inr lat \<and>
    get_prop first (ascii ''longitude'') = Inr lon \<and>
    get_prop first (ascii ''name'') = Inr nm \<and>
    get_prop first (ascii ''country'') = Inr c \<and>
    \<not> toString_throws lat \<and> \<not> toString_throws lon \<and>
    weather e lat lon = Response True st' (Some wbody) \<and>
    get_prop wbody (ascii ''current'') = Inr cur \<and> truthy cur \<and>
    get_prop cur (ascii ''temperature_2m'') = Inr t \<and> t \<noteq> JUndefined \<longrightarrow>
      fst (getTemperature lc data e cty) =
        Inr \<lparr>city = nm, country = (if truthy c then c else JStr []), temperature = t\<rparr>) \<and>
   (getTemperature lc data e cty = (Inr r, data', tr) \<and> CacheSet (lc cty) \<in> set tr \<longrightarrow>
      (\<exists>st2 body2 results2 first2 c2 lat2 lon2 st3 wbody2 cur2.
         geocoding e cty = Response True st2 (Some body2) \<and>
         get_prop body2 (ascii ''results'') = Inr results2 \<and> get_index0 results2 = Inr first2 \<and>
         get_prop first2 (ascii ''name'') = Inr (city r) \<and>
         get_prop first2 (ascii ''country'') = Inr c2 \<and>
         country r = (if truthy c2 then c2 else JStr []) \<and>
         get_prop first2 (ascii ''latitude'') = Inr lat2 \<and>
         get_prop first2 (ascii ''longitude'') = Inr lon2 \<and>
         weather e lat2 lon2 = Response True st3 (Some wbody2) \<and>
         get_prop wbody2 (ascii ''current'') = Inr cur2 \<and>
         get_prop cur2 (ascii ''temperature_2m'') = Inr (temperature r))) \<and>
   ((\<forall>it. data (lc cty) = Some it \<longrightarrow> now_get e - timestamp it > 300000) \<and>
    \<not> lone_surrogate cty \<and>
    geocoding e cty = Response True st0 (Some berlin_geo) \<and>
    weather e (JNum 52.52) (JNum 13.405) = Response True st1 (Some berlin_weather) \<longrightarrow>
      fst (getTemperature lc data e cty) = Inr berlin_reading \<and>
      berlin_reading = \<lparr>city = JStr (ascii ''Berlin''), country = JStr (ascii ''Germany''),
                        temperature = JNum 9.3\<rparr>)"
proof (intro conjI impI)
  assume a: "(\<forall>it. data (lc cty) = Some it \<longrightarrow> now_get e - timestamp it > 300000) \<and>
    \<not> lone_surrogate cty \<and>
    geocoding e cty = Response True st (Some body) \<and>
    get_prop body (ascii ''results'') = Inr results \<and> truthy results \<and>
    get_prop results (ascii ''length'') \<noteq> Inr (JNum 0) \<and>
    get_index0 results = Inr first \<and>
    get_prop first (ascii ''latitude'') = Inr lat \<and>
    get_prop first (ascii ''longitude'') = Inr lon \<and>
    get_prop first (ascii ''name'') = Inr nm \<and>
    get_prop first (ascii ''country'') = Inr c \<and>
    \<not> toString_throws lat \<and> \<not> toString_throws lon \<and>
    weather e lat lon = Response True st' (Some wbody) \<and>
    get_prop wbody (ascii ''current'') = Inr cur \<and> truthy cur \<and>
    get_prop cur (ascii ''temperature_2m'') = Inr t \<and> t \<noteq> JUndefined"
  have "getTemperature lc data e cty =
           (Inr \<lparr>city = nm, country = (if truthy c then c else JStr []), temperature = t\<rparr>,
            data(lc cty \<mapsto>
              \<lparr>item_value = \<lparr>city = nm, country = (if truthy c then c else JStr []), temperature = t\<rparr>,
               timestamp = now_set e\<rparr>),
            [CacheGet (lc cty), GeoFetch cty, WeatherFetch lat lon, CacheSet (lc cty)])"
    by (rule getTemperature_good_answers [where st = st and body = body and results = results
          and first = first and st' = st' and wbody = wbody and cur = cur])
      (use a in blast)+
  then show "fst (getTemperature lc data e cty) =
        Inr \<lparr>city = nm, country = (if truthy c then c else JStr []), temperature = t\<rparr>"
    by simp
next
  assume a: "getTemperature lc data e cty = (Inr r, data', tr) \<and> CacheSet (lc cty) \<in> set tr"
  then obtain loc t' where c: "getCoordinates (geocoding e) cty = (Inr loc, [GeoFetch cty])"
    and w: "getWeather (weather e) (latitude loc) (longitude loc)
              = (Inr t', [WeatherFetch (latitude loc) (longitude loc)])"
    and r: "Inr r = (Inr \<lparr>city = name loc, country = loc_country loc, temperature = t'\<rparr> :: error + reading)"
    by (blast elim: getTemperature_stored)
  from r have r': "city r = name loc" "country r = loc_country loc" "temperature r = t'"
    by auto
  from getCoordinates_Inr [OF c] obtain st2 body2
    where g: "geocoding e cty = Response True st2 (Some body2)"
      and l: "location_of cty body2 = Inr loc"
    by blast
  from location_of_Inr [OF l] obtain results2 first2 c2 where f:
    "get_prop body2 (ascii ''results'') = Inr results2" "get_index0 results2 = Inr first2"
    "get_prop first2 (ascii ''latitude'') = Inr (latitude loc)"
    "get_prop first2 (ascii ''longitude'') = Inr (longitude loc)"
    "get_prop first2 (ascii ''name'') = Inr (name loc)"
    "get_prop first2 (ascii ''country'') = Inr c2"
    "loc_country loc = (if truthy c2 then c2 else JStr [])"
    by blast
  from getWeather_Inr [OF w] obtain st3 wbody2
    where x: "weather e (latitude loc) (longitude loc) = Response True st3 (Some wbody2)"
      and y: "temperature_of wbody2 = Inr t'"
    by blast
  from temperature_of_Inr [OF y] obtain cur2 where z:
    "get_prop wbody2 (ascii ''current'') = Inr cur2"
    "get_prop cur2 (ascii ''temperature_2m'') = Inr t'"
    by blast
  from g f x z r' show "\<exists>st2 body2 results2 first2 c2 lat2 lon2 st3 wbody2 cur2.
         geocoding e cty = Response True st2 (Some body2) \<and>
         get_prop body2 (ascii ''results'') = Inr results2 \<and> get_index0 results2 = Inr first2 \<and>
         get_prop first2 (ascii ''name'') = Inr (city r) \<and>
         get_prop first2 (ascii ''country'') = Inr c2 \<and>
         country r = (if truthy c2 then c2 else JStr []) \<and>
         get_prop first2 (ascii ''latitude'') = Inr lat2 \<and>
         get_prop first2 (ascii ''longitude'') = Inr lon2 \<and>
         weather e lat2 lon2 = Response True st3 (Some wbody2) \<and>
         get_prop wbody2 (ascii ''current'') = Inr cur2 \<and>
         get_prop cur2 (ascii ''temperature_2m'') = Inr (temperature r)"
    by (metis (full_types))
next
  assume "(\<forall>it. data (lc cty) = Some it \<longrightarrow> now_get e - timestamp it > 300000) \<and>
    \<not> lone_surrogate cty \<and>
    geocoding e cty = Response True st0 (Some berlin_geo) \<and>
    weather e (JNum 52.52) (JNum 13.405) = Response True st1 (Some berlin_weather)"
  then show "fst (getTemperature lc data e cty) = Inr berlin_reading"
    by (simp add: getTemperature_berlin_bodies [where st = st0 and st' = st1])
next
  show "berlin_reading = \<lparr>city = JStr (ascii ''Berlin''), country = JStr (ascii ''Germany''),
                        temperature = JNum 9.3\<rparr>"
    by (simp add: berlin_reading_def)
qed

theorem getTemperature_reading_witness:
  "berlin_cache (example_toLowerCase (ascii ''Paris'')) = None \<and>
   \<not> lone_surrogate (ascii ''Paris'') \<and>
   geocoding paris_env (ascii ''Paris'') = Response True 200 (Some paris_geo) \<and>
   weather paris_env (JNum 48.85) (JNum 2.35) = Response True 200 (Some paris_weather) \<and>
   fst (getTemperature example_toLowerCase berlin_cache paris_env (ascii ''Paris'')) =
     Inr \<lparr>city = JStr (ascii ''Paris''), country = JStr [], temperature = JNum 0\<rparr> \<and>
   Map.empty (example_toLowerCase (ascii ''Berlin'')) = (None :: reading item option) \<and>
   \<not> lone_surrogate (ascii ''Berlin'') \<and>
   geocoding berlin_env (ascii ''Berlin'') = Response True 200 (Some berlin_geo) \<and>
   weather berlin_env (JNum 52.52) (JNum 13.405) = Response True 200 (Some berlin_weather) \<and>
   fst (getTemperature example_toLowerCase Map.empty berlin_env (ascii ''Berlin'')) =
     Inr berlin_reading \<and>
   getTemperature example_toLowerCase Map.empty berlin_env (ascii ''Berlin'') =
     (Inr berlin_reading, berlin_cache,
      [CacheGet (ascii ''berlin''), GeoFetch (ascii ''Berlin''),
       WeatherFetch (JNum 52.52) (JNum 13.405), CacheSet (ascii ''berlin'')]) \<and>
   (\<exists>body results first lat lon wbody cur.
      geocoding berlin_env (ascii ''Berlin'') = Response True 200 (Some body) \<and>
      get_prop body (ascii ''results'') = Inr results \<and> get_index0 results = Inr first \<and>
      get_prop first (ascii ''name'') = Inr (JStr (ascii ''Berlin'')) \<and>
      get_prop first (ascii ''latitude'') = Inr lat \<and>
      get_prop first (ascii ''longitude'') = Inr lon \<and>
      weather berlin_env lat lon = Response True 200 (Some wbody) \<and>
      get_prop wbody (ascii ''current'') = Inr cur \<and>
      get_prop cur (ascii ''temperature_2m'') = Inr (JNum 9.3))"
proof -
  let ?lc = example_toLowerCase and ?P = "ascii ''Paris''" and ?B = "ascii ''Berlin''"
  let ?first_obj = "JObj [(ascii ''latitude'', JNum 48.85), (ascii ''longitude'', JNum 2.35),
                          (ascii ''name'', JStr (ascii ''Paris''))]"
  let ?cur = "JObj [(ascii ''temperature_2m'', JNum 0)]"
  let ?tr = "[CacheGet (ascii ''berlin''), GeoFetch (ascii ''Berlin''),
       WeatherFetch (JNum 52.52) (JNum 13.405), CacheSet (ascii ''berlin'')]"
  have none: "berlin_cache (?lc ?P) = None"
    unfolding example_toLowerCase_Paris by (simp add: berlin_cache_def ascii_def)
  have geo: "geocoding paris_env ?P = Response True 200 (Some paris_geo)"
    and wx: "weather paris_env (JNum 48.85) (JNum 2.35) = Response True 200 (Some paris_weather)"
    by (simp_all add: paris_env_def)
  have r: "get_prop paris_geo (ascii ''results'') = Inr (JArr [?first_obj])" "truthy (JArr [?first_obj])"
    "get_prop (JArr [?first_obj]) (ascii ''length'') \<noteq> Inr (JNum 0)"
    by (simp_all add: paris_geo_def)
  have f: "get_index0 (JArr [?first_obj]) = Inr ?first_obj"
    "get_prop ?first_obj (ascii ''latitude'') = Inr (JNum 48.85)"
    "get_prop ?first_obj (ascii ''longitude'') = Inr (JNum 2.35)"
    "get_prop ?first_obj (ascii ''name'') = Inr (JStr (ascii ''Paris''))"
    "get_prop ?first_obj (ascii ''country'') = Inr JUndefined"
    by (simp_all add: ascii_def)
  have u: "\<not> toString_throws (JNum 48.85)" "\<not> toString_throws (JNum 2.35)"
    by simp_all
  have c: "get_prop paris_weather (ascii ''current'') = Inr ?cur" "truthy ?cur"
    "get_prop ?cur (ascii ''temperature_2m'') = Inr (JNum 0)" "JNum 0 \<noteq> JUndefined"
    by (simp_all add: paris_weather_def)
  note tp = getTemperature_reading [where lc = ?lc and data = berlin_cache and e = paris_env
      and cty = ?P and st = 200 and body = paris_geo and results = "JArr [?first_obj]"
      and first = ?first_obj and lat = "JNum 48.85" and lon = "JNum 2.35"
      and nm = "JStr (ascii ''Paris'')" and c = JUndefined and st' = 200
      and wbody = paris_weather and cur = ?cur and t = "JNum 0"]
  from tp none lone_surrogate_Paris geo wx r f u c
  have paris: "fst (getTemperature ?lc berlin_cache paris_env ?P) =
      Inr \<lparr>city = JStr (ascii ''Paris''), country = JStr [], temperature = JNum 0\<rparr>"
    by simp
  have bnone: "Map.empty (?lc ?B) = (None :: reading item option)"
    by simp
  have bgeo: "geocoding berlin_env ?B = Response True 200 (Some berlin_geo)"
    and bwx: "weather berlin_env (JNum 52.52) (JNum 13.405) = Response True 200 (Some berlin_weather)"
    by (simp_all add: berlin_env_def)
  note run = getTemperature_Berlin_empty
  have stored: "CacheSet (?lc ?B) \<in> set ?tr"
    by (simp add: example_toLowerCase_Berlin)
  note tb = getTemperature_reading [where lc = ?lc and data = Map.empty and e = berlin_env
      and cty = ?B and r = berlin_reading and data' = berlin_cache and tr = ?tr
      and ?st0.0 = 200 and ?st1.0 = 200]
  from tb lone_surrogate_Berlin bgeo bwx
  have berlin: "fst (getTemperature ?lc Map.empty berlin_env ?B) = Inr berlin_reading"
    by simp
  note mid = tb [THEN conjunct2, THEN conjunct1, THEN mp, OF conjI [OF run stored]]
  from mid obtain st2 body2 results2 first2 c2 lat2 lon2 st3 wbody2 cur2 where p:
    "geocoding berlin_env ?B = Response True st2 (Some body2)"
    "get_prop body2 (ascii ''results'') = Inr results2" "get_index0 results2 = Inr first2"
    "get_prop first2 (ascii ''name'') = Inr (city berlin_reading)"
    "get_prop first2 (ascii ''latitude'') = Inr lat2"
    "get_prop first2 (ascii ''longitude'') = Inr lon2"
    "weather berlin_env lat2 lon2 = Response True st3 (Some wbody2)"
    "get_prop wbody2 (ascii ''current'') = Inr cur2"
    "get_prop cur2 (ascii ''temperature_2m'') = Inr (temperature berlin_reading)"
    by blast
  from p(1) p(7) have "st2 = 200" "st3 = 200"
    by (simp_all add: berlin_env_def)
  with p have prov: "\<exists>body results first lat lon wbody cur.
      geocoding berlin_env ?B = Response True 200 (Some body) \<and>
      get_prop body (ascii ''results'') = Inr results \<and> get_index0 results = Inr first \<and>
      get_prop first (ascii ''name'') = Inr (JStr (ascii ''Berlin'')) \<and>
      get_prop first (ascii ''latitude'') = Inr lat \<and>
      get_prop first (ascii ''longitude'') = Inr lon \<and>
      weather berlin_env lat lon = Response True 200 (Some wbody) \<and>
      get_prop wbody (ascii ''current'') = Inr cur \<and>
      get_prop cur (ascii ''temperature_2m'') = Inr (JNum 9.3)"
    unfolding berlin_reading_def by (simp only: reading.simps) blast
  from none lone_surrogate_Paris geo wx paris bnone lone_surrogate_Berlin bgeo bwx berlin run prov
  show ?thesis
    by blast
qed

text \<open>
  C8. The requests of one call of \<open>getTemperature\<close>, in the order in which they are sent,
  are none, or the geocoding request alone, or the geocoding request followed by one
  weather request. A weather request is sent only when the geocoding endpoint has answered
  with an \<open>ok\<close> response from which \<open>getCoordinates\<close> has returned a location, and it carries
  the latitude and longitude of that location.
\<close>

theorem weather_after_geocoding:
  assumes "getTemperature lc data e cty = (res, data', tr)"
  shows "(filter is_fetch tr = [] \<or> filter is_fetch tr = [GeoFetch cty] \<or>
          (\<exists>lat lon. filter is_fetch tr = [GeoFetch cty, WeatherFetch lat lon])) \<and>
         (\<forall>lat lon. WeatherFetch lat lon \<in> set tr \<longrightarrow>
            (\<exists>loc st body.
               geocoding e cty = Response True st (Some body) \<and>
               location_of cty body = Inr loc \<and>
               getCoordinates (geocoding e) cty = (Inr loc, [GeoFetch cty]) \<and>
               lat = latitude loc \<and> lon = longitude loc))"
  using assms
proof (cases rule: getTemperature_cases)
  case (hit r)
  then show ?thesis by simp
next
  case (geo_fail err tr1)
  with getCoordinates_trace(1) [OF geo_fail(2)] show ?thesis by auto
next
  case (weather_fail loc err tr2)
  from getCoordinates_Inr [OF weather_fail(2)] obtain st body
    where "geocoding e cty = Response True st (Some body)" "location_of cty body = Inr loc"
    by blast
  with weather_fail getWeather_trace(1) [OF weather_fail(3)] show ?thesis by auto
next
  case (stored loc t data1)
  from getCoordinates_Inr [OF stored(2)] obtain st body
    where "geocoding e cty = Response True st (Some body)" "location_of cty body = Inr loc"
    by blast
  with stored show ?thesis by auto
qed

theorem weather_after_geocoding_witness:
  "getTemperature example_toLowerCase Map.empty berlin_env (ascii ''Berlin'') =
     (Inr berlin_reading, berlin_cache,
      [CacheGet (ascii ''berlin''), GeoFetch (ascii ''Berlin''),
       WeatherFetch (JNum 52.52) (JNum 13.405), CacheSet (ascii ''berlin'')]) \<and>
   WeatherFetch (JNum 52.52) (JNum 13.405) \<in>
     set [CacheGet (ascii ''berlin''), GeoFetch (ascii ''Berlin''),
          WeatherFetch (JNum 52.52) (JNum 13.405), CacheSet (ascii ''berlin'')] \<and>
   (\<exists>loc. getCoordinates (geocoding berlin_env) (ascii ''Berlin'') = (Inr loc, [GeoFetch (ascii ''Berlin'')]) \<and>
          JNum 52.52 = latitude loc \<and> JNum 13.405 = longitude loc)"
proof -
  note first = getTemperature_Berlin_empty
  have "WeatherFetch (JNum 52.52) (JNum 13.405) \<in>
     set [CacheGet (ascii ''berlin''), GeoFetch (ascii ''Berlin''),
          WeatherFetch (JNum 52.52) (JNum 13.405), CacheSet (ascii ''berlin'')]"
    by simp
  with weather_after_geocoding [OF first] first show ?thesis
    by blast
qed

lemma getTemperature_cache_events:
  assumes "getTemperature lc data e cty = (res, data', tr)"
  shows "CacheGet (lc cty) \<in> set tr"
    and "CacheGet k \<in> set tr \<or> CacheSet k \<in> set tr \<Longrightarrow> k = lc cty"
proof -
  from assms have "CacheGet (lc cty) \<in> set tr \<and>
      (CacheGet k \<in> set tr \<or> CacheSet k \<in> set tr \<longrightarrow> k = lc cty)"
  proof (cases rule: getTemperature_cases)
    case (geo_fail err tr1)
    with getCoordinates_trace(1) [OF geo_fail(2)] show ?thesis by auto
  next
    case (weather_fail loc err tr2)
    with getWeather_trace(1) [OF weather_fail(3)] show ?thesis by auto
  qed auto
  then show "CacheGet (lc cty) \<in> set tr"
    and "CacheGet k \<in> set tr \<or> CacheSet k \<in> set tr \<Longrightarrow> k = lc cty"
    by simp_all
qed

lemma getTemperature_frame:
  assumes "getTemperature lc data e cty = (res, data', tr)" and "k \<noteq> lc cty"
  shows "data' k = data k"
  using assms(1)
proof (cases rule: getTemperature_cases)
  case (stored loc t data1)
  with assms(2) Cache_get_frame [of k "lc cty" data "now_get e"] show ?thesis
    by (simp add: Cache_set_def)
qed (use assms(2) Cache_get_frame [of k "lc cty" data "now_get e"] in simp_all)

text \<open>The table on the strings that the validator lets through, and on case variants.\<close>

lemma is_upper_plus:
  assumes "is_upper c"
  shows "in_table c" and "in_table (c + 0x0020)" and "\<not> is_upper (c + 0x0020)"
proof -
  from assms have "(0x0041 \<le> c \<and> c \<le> 0x005A) \<or> (0x00C0 \<le> c \<and> c \<le> 0x00DE)"
    by (auto simp add: is_upper_def)
  then have b: "c \<le> 0x00FF" "c + 0x0020 \<le> 0x00FF"
    "\<not> (0x0041 \<le> c + 0x0020 \<and> c + 0x0020 \<le> 0x005A)"
    "\<not> (0x00C0 \<le> c + 0x0020 \<and> c + 0x0020 \<le> 0x00DE)"
    by uint_arith+
  from b(1) show "in_table c"
    by (simp add: in_table_def)
  from b(2) show "in_table (c + 0x0020)"
    by (simp add: in_table_def)
  from b(3) b(4) show "\<not> is_upper (c + 0x0020)"
    unfolding is_upper_def by blast
qed

lemma toLowerCase_unit_Some:
  assumes "in_table c"
  shows "\<exists>d. toLowerCase_unit c = Some d \<and> in_table d \<and> \<not> is_upper d"
  using assms is_upper_plus [of c] by (auto simp add: toLowerCase_unit_def)

lemma toLowerCase_table_Some:
  assumes "\<forall>c\<in>set s. in_table c"
  shows "\<exists>t. toLowerCase_table s = Some t \<and> is_lowercase t"
  using assms
proof (induction s)
  case Nil
  show ?case by (simp add: toLowerCase_table_def is_lowercase_def)
next
  case (Cons c s)
  then obtain t where t: "toLowerCase_table s = Some t" "is_lowercase t"
    by auto
  from Cons.prems obtain d where d: "toLowerCase_unit c = Some d" "in_table d" "\<not> is_upper d"
    using toLowerCase_unit_Some [of c] by auto
  from t d show ?case
    by (simp add: toLowerCase_table_def is_lowercase_def)
qed

lemma allowed_char_in_table:
  assumes "allowed_char c"
  shows "in_table c"
proof (cases "isWhiteSpace c")
  case True
  then show ?thesis by (simp add: in_table_def)
next
  case False
  with assms have "(0x0061 \<le> c \<and> c \<le> 0x007A) \<or> (0x0041 \<le> c \<and> c \<le> 0x005A) \<or>
      c \<in> {0x00E4, 0x00F6, 0x00FC, 0x00C4, 0x00D6, 0x00DC, 0x00DF} \<or> c = 0x002D"
    by (simp add: allowed_char_def is_letter_def is_specified_diacritic_def)
  then have "c \<le> 0x00FF"
    by (elim disjE) (uint_arith, uint_arith, auto)
  then show ?thesis by (simp add: in_table_def)
qed

lemma validateCity_in_table:
  assumes "validateCity raw = Inr cty"
  shows "\<forall>c\<in>set cty. in_table c"
proof -
  from assms have "city_regex_test cty"
    by (auto simp add: validateCity_def Let_def split: if_splits)
  then show ?thesis
    by (auto simp add: city_regex_test_iff intro: allowed_char_in_table)
qed

lemma validated_key_lowercase:
  assumes "agrees_with_table lc" and "validateCity raw = Inr cty"
  shows "toLowerCase_table cty = Some (lc cty)" and "is_lowercase (lc cty)"
proof -
  from toLowerCase_table_Some [OF validateCity_in_table [OF assms(2)]]
  obtain t where t: "toLowerCase_table cty = Some t" "is_lowercase t"
    by blast
  with assms(1) have "lc cty = t"
    by (simp add: agrees_with_table_def)
  with t show "toLowerCase_table cty = Some (lc cty)" and "is_lowercase (lc cty)"
    by simp_all
qed

lemma case_variant_unit:
  assumes "case_variant c d"
  shows "toLowerCase_unit c = toLowerCase_unit d"
proof -
  have up: "toLowerCase_unit x = toLowerCase_unit (x + 0x0020)" if "is_upper x" for x
    using that is_upper_plus [of x] by (simp add: toLowerCase_unit_def)
  from assms up [of c] up [of d] show ?thesis
    by (auto simp add: case_variant_def)
qed

lemma case_variants_those:
  assumes "list_all2 case_variant a b"
  shows "those (map toLowerCase_unit a) = those (map toLowerCase_unit b)"
  using assms
proof (induction rule: list_all2_induct)
  case Nil
  show ?case by simp
next
  case (Cons x xs y ys)
  from Cons.hyps(1) have "toLowerCase_unit x = toLowerCase_unit y"
    by (rule case_variant_unit)
  with Cons.IH show ?case by (simp split: option.split)
qed

lemma same_up_to_case_table:
  assumes "same_up_to_case a b"
  shows "toLowerCase_table a = toLowerCase_table b"
  using assms case_variants_those by (simp add: same_up_to_case_def toLowerCase_table_def)

lemma same_up_to_case_key:
  assumes "agrees_with_table lc" and "same_up_to_case a b" and "toLowerCase_table a \<noteq> None"
  shows "lc a = lc b"
proof -
  from assms(3) obtain t where "toLowerCase_table a = Some t" by auto
  moreover from this same_up_to_case_table [OF assms(2)] have "toLowerCase_table b = Some t"
    by simp
  ultimately show ?thesis
    using assms(1) by (simp add: agrees_with_table_def)
qed

lemma handleRequest_lowercase_keys:
  assumes "agrees_with_table lc" and "\<forall>k\<in>dom data. is_lowercase k"
  shows "\<forall>k\<in>dom (fst (snd (handleRequest lc data e raw))). is_lowercase k"
proof (cases "validateCity raw")
  case (Inl err)
  with assms(2) show ?thesis by (simp add: handleRequest_def)
next
  case (Inr cty)
  obtain res data' tr where g: "getTemperature lc data e cty = (res, data', tr)"
    by (cases "getTemperature lc data e cty")
  have "is_lowercase k" if "k \<in> dom data'" for k
  proof (cases "k = lc cty")
    case True
    with validated_key_lowercase(2) [OF assms(1) Inr] show ?thesis by simp
  next
    case False
    with getTemperature_frame [OF g] that assms(2) show ?thesis
      by (auto simp add: dom_def)
  qed
  with Inr g show ?thesis by (simp add: handleRequest_def)
qed

lemma requests_lowercase_keys:
  assumes "agrees_with_table lc"
  shows "\<forall>k\<in>dom data. is_lowercase k \<Longrightarrow> \<forall>k\<in>dom (requests lc data rs). is_lowercase k"
proof (induction rs arbitrary: data)
  case Nil
  then show ?case by simp
next
  case (Cons r rs)
  obtain e raw where r: "r = (e, raw)" by (cases r)
  from handleRequest_lowercase_keys [OF assms Cons.prems]
  have "\<forall>k\<in>dom (requests lc (fst (snd (handleRequest lc data e raw))) rs). is_lowercase k"
    by (rule Cons.IH)
  with r show ?case by simp
qed

text \<open>
  C9. Every call of \<open>Cache.get\<close> and \<open>Cache.set\<close> by \<open>getTemperature\<close> has as its key what the
  host's \<open>toLowerCase\<close> gives for the input city, and the call changes the cache map at no
  other key. For a city that \<open>validateCity\<close> has let through, and a host function that
  agrees with the table of ECMAScript, that key is the table's answer and is lower case:
  it has no upper-case letter. So every key of the cache map is lower case after any
  sequence of requests, whatever the user typed, that starts from a map with lower-case
  keys only, the empty map of the start in particular. Two cities of the table that
  differ in letter case only have the same key: the calls for the one and for the other
  read and write the cache under that key and nowhere else.
\<close>

theorem cache_keys_lowercased:
  "(getTemperature lc data e cty = (res, data', tr) \<longrightarrow>
      CacheGet (lc cty) \<in> set tr \<and>
      (\<forall>k. CacheGet k \<in> set tr \<or> CacheSet k \<in> set tr \<longrightarrow> k = lc cty) \<and>
      (\<forall>k. k \<noteq> lc cty \<longrightarrow> data' k = data k)) \<and>
   (agrees_with_table lc \<and> validateCity raw = Inr cty \<longrightarrow>
      toLowerCase_table cty = Some (lc cty) \<and> is_lowercase (lc cty)) \<and>
   (agrees_with_table lc \<and> (\<forall>k\<in>dom data. is_lowercase k) \<longrightarrow>
      (\<forall>k\<in>dom (requests lc data rs). is_lowercase k)) \<and>
   (agrees_with_table lc \<longrightarrow> (\<forall>k\<in>dom (requests lc Map.empty rs). is_lowercase k)) \<and>
   (agrees_with_table lc \<and> same_up_to_case a b \<and> toLowerCase_table a \<noteq> None \<and>
    getTemperature lc da ea a = (ra, da', ta) \<and> getTemperature lc db eb b = (rb, db', tb) \<longrightarrow>
      lc a = lc b \<and> CacheGet (lc a) \<in> set ta \<and> CacheGet (lc a) \<in> set tb \<and>
      (\<forall>k. CacheGet k \<in> set (ta @ tb) \<or> CacheSet k \<in> set (ta @ tb) \<longrightarrow> k = lc a) \<and>
      (\<forall>k. k \<noteq> lc a \<longrightarrow> da' k = da k \<and> db' k = db k))"
proof (intro conjI impI)
  assume g: "getTemperature lc data e cty = (res, data', tr)"
  show "CacheGet (lc cty) \<in> set tr"
    by (rule getTemperature_cache_events(1) [OF g])
  show "\<forall>k. CacheGet k \<in> set tr \<or> CacheSet k \<in> set tr \<longrightarrow> k = lc cty"
    using getTemperature_cache_events(2) [OF g] by blast
  show "\<forall>k. k \<noteq> lc cty \<longrightarrow> data' k = data k"
    using getTemperature_frame [OF g] by blast
next
  assume h: "agrees_with_table lc \<and> validateCity raw = Inr cty"
  then show "toLowerCase_table cty = Some (lc cty)" and "is_lowercase (lc cty)"
    using validated_key_lowercase by blast+
next
  assume "agrees_with_table lc \<and> (\<forall>k\<in>dom data. is_lowercase k)"
  then show "\<forall>k\<in>dom (requests lc data rs). is_lowercase k"
    using requests_lowercase_keys by blast
next
  assume "agrees_with_table lc"
  then show "\<forall>k\<in>dom (requests lc Map.empty rs). is_lowercase k"
    by (rule requests_lowercase_keys) simp
next
  assume h: "agrees_with_table lc \<and> same_up_to_case a b \<and> toLowerCase_table a \<noteq> None \<and>
    getTemperature lc da ea a = (ra, da', ta) \<and> getTemperature lc db eb b = (rb, db', tb)"
  then have key: "lc a = lc b"
    using same_up_to_case_key by blast
  from h have ga: "getTemperature lc da ea a = (ra, da', ta)"
    and gb: "getTemperature lc db eb b = (rb, db', tb)"
    by simp_all
  show "lc a = lc b" by (rule key)
  show "CacheGet (lc a) \<in> set ta"
    by (rule getTemperature_cache_events(1) [OF ga])
  show "CacheGet (lc a) \<in> set tb"
    using getTemperature_cache_events(1) [OF gb] key by simp
  show "\<forall>k. CacheGet k \<in> set (ta @ tb) \<or> CacheSet k \<in> set (ta @ tb) \<longrightarrow> k = lc a"
    using getTemperature_cache_events(2) [OF ga] getTemperature_cache_events(2) [OF gb] key
    by auto
  show "\<forall>k. k \<noteq> lc a \<longrightarrow> da' k = da k \<and> db' k = db k"
    using getTemperature_frame [OF ga] getTemperature_frame [OF gb] key by auto
qed

lemma validateCity_Berlin_padded: "validateCity (ascii ''  Berlin  '') = Inr (ascii ''Berlin'')"
proof -
  have t: "trim (ascii ''  Berlin  '') = ascii ''Berlin''"
    by (simp add: trim_def ascii_def isWhiteSpace_def)
  have "\<forall>c\<in>set (ascii ''Berlin''). allowed_char c"
    by (simp add: ascii_def allowed_char_def is_letter_def)
  then show ?thesis
    by (simp add: validateCity_def Let_def t city_regex_test_iff) (simp add: ascii_def)
qed

lemma same_up_to_case_BERLIN: "same_up_to_case (ascii ''BERLIN'') (ascii ''Berlin'')"
  by (simp add: same_up_to_case_def case_variant_def is_upper_def ascii_def)

lemma toLowerCase_table_BERLIN: "toLowerCase_table (ascii ''BERLIN'') = Some (ascii ''berlin'')"
  by (simp add: toLowerCase_table_def toLowerCase_unit_def in_table_def is_upper_def ascii_def)

lemma getTemperature_BERLIN_offline:
  "getTemperature example_toLowerCase berlin_cache (offline_env 2000) (ascii ''BERLIN'') =
     (Inr berlin_reading, berlin_cache, [CacheGet (ascii ''berlin'')])"
proof -
  have "example_toLowerCase (ascii ''BERLIN'') = ascii ''berlin''"
    by (simp add: example_toLowerCase_def toLowerCase_table_BERLIN)
  then show ?thesis
    by (simp add: getTemperature_def Let_def Cache_get_def berlin_cache_def offline_env_def
        CACHE_DURATION_def)
qed

theorem cache_keys_lowercased_witness:
  "getTemperature example_toLowerCase Map.empty berlin_env (ascii ''Berlin'') =
     (Inr berlin_reading, berlin_cache,
      [CacheGet (ascii ''berlin''), GeoFetch (ascii ''Berlin''),
       WeatherFetch (JNum 52.52) (JNum 13.405), CacheSet (ascii ''berlin'')]) \<and>
   example_toLowerCase (ascii ''Berlin'') = ascii ''berlin'' \<and>
   validateCity (ascii ''  Berlin  '') = Inr (ascii ''Berlin'') \<and>
   toLowerCase_table (ascii ''Berlin'') = Some (ascii ''berlin'') \<and>
   is_lowercase (ascii ''berlin'') \<and>
   requests example_toLowerCase Map.empty [(berlin_env, ascii ''  Berlin  '')] = berlin_cache \<and>
   ascii ''berlin'' \<in> dom berlin_cache \<and>
   same_up_to_case (ascii ''BERLIN'') (ascii ''Berlin'') \<and>
   toLowerCase_table (ascii ''BERLIN'') \<noteq> None \<and>
   getTemperature example_toLowerCase berlin_cache (offline_env 2000) (ascii ''BERLIN'') =
     (Inr berlin_reading, berlin_cache, [CacheGet (ascii ''berlin'')]) \<and>
   example_toLowerCase (ascii ''BERLIN'') = example_toLowerCase (ascii ''Berlin'') \<and>
   CacheGet (example_toLowerCase (ascii ''BERLIN'')) \<in> set [CacheGet (ascii ''berlin'')]"
proof -
  let ?lc = example_toLowerCase and ?B = "ascii ''Berlin''" and ?U = "ascii ''BERLIN''"
  let ?tr = "[CacheGet (ascii ''berlin''), GeoFetch (ascii ''Berlin''),
       WeatherFetch (JNum 52.52) (JNum 13.405), CacheSet (ascii ''berlin'')]"
  note run = getTemperature_Berlin_empty
  note hit = getTemperature_BERLIN_offline
  note val = validateCity_Berlin_padded
  note t = cache_keys_lowercased [where lc = ?lc and data = Map.empty and e = berlin_env
      and cty = ?B and res = "Inr berlin_reading" and data' = berlin_cache and tr = ?tr
      and raw = "ascii ''  Berlin  ''" and rs = "[(berlin_env, ascii ''  Berlin  '')]"
      and a = ?U and b = ?B and da = berlin_cache and ea = "offline_env 2000"
      and ra = "Inr berlin_reading" and da' = berlin_cache and ta = "[CacheGet (ascii ''berlin'')]"
      and db = Map.empty and eb = berlin_env and rb = "Inr berlin_reading" and db' = berlin_cache
      and tb = ?tr]
  have tab: "toLowerCase_table ?U \<noteq> None"
    by (simp add: toLowerCase_table_BERLIN)
  from t [THEN conjunct2, THEN conjunct1, THEN mp, OF conjI [OF agrees_example val]]
  have k: "toLowerCase_table ?B = Some (?lc ?B)" "is_lowercase (?lc ?B)"
    by simp_all
  from t [THEN conjunct2, THEN conjunct2, THEN conjunct2, THEN conjunct1, THEN mp, OF agrees_example]
  have inv: "\<forall>k\<in>dom (requests ?lc Map.empty [(berlin_env, ascii ''  Berlin  '')]). is_lowercase k" .
  have req: "requests ?lc Map.empty [(berlin_env, ascii ''  Berlin  '')] = berlin_cache"
    by (simp add: handleRequest_def val run)
  have d: "ascii ''berlin'' \<in> dom berlin_cache"
    by (simp add: berlin_cache_def)
  from inv req d have low: "is_lowercase (ascii ''berlin'')"
    by simp
  from t [THEN conjunct2, THEN conjunct2, THEN conjunct2, THEN conjunct2, THEN mp,
      OF conjI [OF agrees_example conjI [OF same_up_to_case_BERLIN conjI [OF tab conjI [OF hit run]]]]]
  have same: "?lc ?U = ?lc ?B" "CacheGet (?lc ?U) \<in> set [CacheGet (ascii ''berlin'')]"
    by simp_all
  from run example_toLowerCase_Berlin val k low req d same_up_to_case_BERLIN tab hit same
  show ?thesis
    by (simp add: example_toLowerCase_Berlin)
qed

end
